theory Spec2Isabelle
  imports Main "HOL-Library.Multiset" "HOL-Library.AList"
begin

section \<open>JavaScript values\<close>

text \<open>
  A property of a JavaScript object that the declared type makes optional and nullable
  is in one of three states: the key is absent (reading it gives \<open>undefined\<close>), the key
  holds \<open>null\<close>, or it holds a value. Request bodies are JSON, which has no
  \<open>undefined\<close>, so a key holding \<open>undefined\<close> never reaches the store and is not
  told apart from an absent key.
\<close>

datatype 'a optional = Undefined | Null | Val 'a

text \<open>
  JSON values. Numbers are the integer-valued ones, as the integer columns of the schema
  declare them; an object is the list of its key/value pairs and is read with \<open>map_of\<close>.
  Strings are lists of characters with codes below 256.
\<close>

datatype jsval =
    JNull
  | JBool bool
  | JNum int
  | JStr string
  | JArr "jsval list"
  | JObj "(string \<times> jsval) list"

text \<open>Truthiness of an optional string (\<open>x || d\<close>, \<open>x ? a : b\<close>): the empty string is falsy.\<close>

fun truthyStr :: "string optional \<Rightarrow> bool" where
  "truthyStr (Val s) = (s \<noteq> [])"
| "truthyStr _ = False"

text \<open>Truthiness of an optional array: every array, also the empty one, is truthy.\<close>

fun truthyArr :: "'a list optional \<Rightarrow> bool" where
  "truthyArr (Val xs) = True"
| "truthyArr _ = False"

section \<open>The record store (server/storage.ts)\<close>

subsection \<open>Entities (shared schema)\<close>

text \<open>
  \<open>Vehicle\<close> is the row type of the \<open>vehicles\<close> table. The columns without
  \<open>notNull\<close> are nullable; \<open>createVehicle\<close> spreads the insert payload, so \<open>vin\<close>
  and \<open>aiExtractedData\<close> may also be absent at run time. Timestamps are milliseconds since the
  epoch (\<open>Date.getTime()\<close>).
\<close>

record Vehicle =
  v_id :: string
  v_vin :: "string optional"
  v_year :: int
  v_make :: string
  v_model :: string
  v_trim :: "string optional"
  v_mileage :: int
  v_transmission :: string
  v_fuelType :: string
  v_condition :: string
  v_price :: int
  v_location :: string
  v_description :: string
  v_features :: "string list optional"
  v_images :: "string list optional"
  v_aiExtractedData :: "jsval optional"
  v_createdAt :: int
  v_updatedAt :: int

text \<open>\<open>InsertVehicle\<close>: the row without \<open>id\<close>, \<open>createdAt\<close>, \<open>updatedAt\<close>.\<close>

record InsertVehicle =
  iv_vin :: "string optional"
  iv_year :: int
  iv_make :: string
  iv_model :: string
  iv_trim :: "string optional"
  iv_mileage :: int
  iv_transmission :: string
  iv_fuelType :: string
  iv_condition :: string
  iv_price :: int
  iv_location :: string
  iv_description :: string
  iv_features :: "string list optional"
  iv_images :: "string list optional"
  iv_aiExtractedData :: "jsval optional"

text \<open>
  \<open>Partial<InsertVehicle>\<close>: every key may be absent. For a required column \<open>None\<close>
  is the absent key; for a nullable column \<open>Undefined\<close> is.
\<close>

record PartialVehicle =
  pv_vin :: "string optional"
  pv_year :: "int option"
  pv_make :: "string option"
  pv_model :: "string option"
  pv_trim :: "string optional"
  pv_mileage :: "int option"
  pv_transmission :: "string option"
  pv_fuelType :: "string option"
  pv_condition :: "string option"
  pv_price :: "int option"
  pv_location :: "string option"
  pv_description :: "string option"
  pv_features :: "string list optional"
  pv_images :: "string list optional"
  pv_aiExtractedData :: "jsval optional"

record Listing =
  l_id :: string
  l_vehicleId :: "string optional"
  l_title :: string
  l_platform :: string
  l_status :: string
  l_listingData :: "jsval optional"
  l_createdAt :: int
  l_updatedAt :: int

record InsertListing =
  il_vehicleId :: "string optional"
  il_title :: string
  il_platform :: string
  il_status :: "string optional"
  il_listingData :: "jsval optional"

record PartialListing =
  pl_vehicleId :: "string optional"
  pl_title :: "string option"
  pl_platform :: "string option"
  pl_status :: "string option"
  pl_listingData :: "jsval optional"

record AiExtraction =
  e_id :: string
  e_vehicleId :: "string optional"
  e_imageUrl :: string
  e_extractedText :: "string optional"
  e_confidence :: "int optional"
  e_extractedData :: "jsval optional"
  e_createdAt :: int

record InsertAiExtraction =
  ie_vehicleId :: "string optional"
  ie_imageUrl :: string
  ie_extractedText :: "string optional"
  ie_confidence :: "int optional"
  ie_extractedData :: "jsval optional"

subsection \<open>The three maps\<close>

text \<open>
  A JavaScript \<open>Map\<close> iterates in insertion order, and \<open>set\<close> on a key that is already
  there replaces the value in place: an association list with \<open>AList.update\<close>.
  \<open>get\<close> is \<open>map_of\<close>, \<open>delete\<close> is \<open>AList.delete\<close>, \<open>values()\<close> is
  \<open>map snd\<close>.
\<close>

record MemStorage =
  vehicles :: "(string \<times> Vehicle) list"
  listings :: "(string \<times> Listing) list"
  aiExtractions :: "(string \<times> AiExtraction) list"

definition emptyStorage :: MemStorage where
  "emptyStorage = \<lparr> vehicles = [], listings = [], aiExtractions = [] \<rparr>"

text \<open>
  \<open>Array.prototype.sort\<close> with a comparator: a stable sort; \<open>a\<close> comes before \<open>b\<close>
  when \<open>cmp a b\<close> is negative, and elements that compare equal keep their order.
\<close>

fun insertCmp :: "('a \<Rightarrow> 'a \<Rightarrow> int) \<Rightarrow> 'a \<Rightarrow> 'a list \<Rightarrow> 'a list" where
  "insertCmp cmp x [] = [x]"
| "insertCmp cmp x (y # ys) =
     (if cmp x y \<le> 0 then x # y # ys else y # insertCmp cmp x ys)"

fun sortCmp :: "('a \<Rightarrow> 'a \<Rightarrow> int) \<Rightarrow> 'a list \<Rightarrow> 'a list" where
  "sortCmp cmp [] = []"
| "sortCmp cmp (x # xs) = insertCmp cmp x (sortCmp cmp xs)"

text \<open>Spreading a partial over an existing value: an absent key leaves the value.\<close>

fun spreadReq :: "'a \<Rightarrow> 'a option \<Rightarrow> 'a" where
  "spreadReq old None = old"
| "spreadReq old (Some new) = new"

fun spreadOpt :: "'a optional \<Rightarrow> 'a optional \<Rightarrow> 'a optional" where
  "spreadOpt old Undefined = old"
| "spreadOpt old new = new"

subsection \<open>Vehicle methods\<close>

definition getVehicle :: "string \<Rightarrow> MemStorage \<Rightarrow> Vehicle option" where
  "getVehicle ident s = map_of (vehicles s) ident"

definition getAllVehicles :: "MemStorage \<Rightarrow> Vehicle list" where
  "getAllVehicles s =
     sortCmp (\<lambda>a b. v_createdAt b - v_createdAt a) (map snd (vehicles s))"

text \<open>
  \<open>createVehicle\<close>: \<open>uid\<close> is the value of \<open>randomUUID()\<close> and \<open>now\<close> that of
  \<open>new Date()\<close>. The payload is spread first; \<open>trim\<close>, \<open>features\<close> and \<open>images\<close>
  are then overwritten with \<open>x || null\<close> and \<open>x || []\<close>.
\<close>

definition createVehicle ::
  "string \<Rightarrow> int \<Rightarrow> InsertVehicle \<Rightarrow> MemStorage \<Rightarrow> Vehicle \<times> MemStorage" where
  "createVehicle uid now insertVehicle s =
     (let vehicle = \<lparr>
            v_id = uid,
            v_vin = iv_vin insertVehicle,
            v_year = iv_year insertVehicle,
            v_make = iv_make insertVehicle,
            v_model = iv_model insertVehicle,
            v_trim = (if truthyStr (iv_trim insertVehicle) then iv_trim insertVehicle else Null),
            v_mileage = iv_mileage insertVehicle,
            v_transmission = iv_transmission insertVehicle,
            v_fuelType = iv_fuelType insertVehicle,
            v_condition = iv_condition insertVehicle,
            v_price = iv_price insertVehicle,
            v_location = iv_location insertVehicle,
            v_description = iv_description insertVehicle,
            v_features =
              (if truthyArr (iv_features insertVehicle) then iv_features insertVehicle else Val []),
            v_images =
              (if truthyArr (iv_images insertVehicle) then iv_images insertVehicle else Val []),
            v_aiExtractedData = iv_aiExtractedData insertVehicle,
            v_createdAt = now,
            v_updatedAt = now \<rparr>
      in (vehicle, s\<lparr> vehicles := AList.update uid vehicle (vehicles s) \<rparr>))"

text \<open>
  \<open>updateVehicle\<close>: \<open>{...existing, ...updateData, updatedAt, features, images}\<close>. The two
  list fields are written after the spread and by a test of their own:
  \<open>updateData.features ? [...updateData.features] : existing.features\<close>.
\<close>

definition updateVehicle ::
  "string \<Rightarrow> int \<Rightarrow> PartialVehicle \<Rightarrow> MemStorage \<Rightarrow> Vehicle option \<times> MemStorage" where
  "updateVehicle ident now updateData s =
     (case map_of (vehicles s) ident of
        None \<Rightarrow> (None, s)
      | Some existing \<Rightarrow>
          (let updated = \<lparr>
                 v_id = v_id existing,
                 v_vin = spreadOpt (v_vin existing) (pv_vin updateData),
                 v_year = spreadReq (v_year existing) (pv_year updateData),
                 v_make = spreadReq (v_make existing) (pv_make updateData),
                 v_model = spreadReq (v_model existing) (pv_model updateData),
                 v_trim = spreadOpt (v_trim existing) (pv_trim updateData),
                 v_mileage = spreadReq (v_mileage existing) (pv_mileage updateData),
                 v_transmission = spreadReq (v_transmission existing) (pv_transmission updateData),
                 v_fuelType = spreadReq (v_fuelType existing) (pv_fuelType updateData),
                 v_condition = spreadReq (v_condition existing) (pv_condition updateData),
                 v_price = spreadReq (v_price existing) (pv_price updateData),
                 v_location = spreadReq (v_location existing) (pv_location updateData),
                 v_description = spreadReq (v_description existing) (pv_description updateData),
                 v_features =
                   (if truthyArr (pv_features updateData) then pv_features updateData
                    else v_features existing),
                 v_images =
                   (if truthyArr (pv_images updateData) then pv_images updateData
                    else v_images existing),
                 v_aiExtractedData =
                   spreadOpt (v_aiExtractedData existing) (pv_aiExtractedData updateData),
                 v_createdAt = v_createdAt existing,
                 v_updatedAt = now \<rparr>
           in (Some updated, s\<lparr> vehicles := AList.update ident updated (vehicles s) \<rparr>)))"

text \<open>\<open>Map.delete\<close> returns whether the key was there.\<close>

definition deleteVehicle :: "string \<Rightarrow> MemStorage \<Rightarrow> bool \<times> MemStorage" where
  "deleteVehicle ident s =
     (map_of (vehicles s) ident \<noteq> None,
      s\<lparr> vehicles := AList.delete ident (vehicles s) \<rparr>)"

subsection \<open>Listing methods\<close>

definition getListing :: "string \<Rightarrow> MemStorage \<Rightarrow> Listing option" where
  "getListing ident s = map_of (listings s) ident"

definition getListingsByVehicle :: "string \<Rightarrow> MemStorage \<Rightarrow> Listing list" where
  "getListingsByVehicle vehicleId s =
     filter (\<lambda>listing. l_vehicleId listing = Val vehicleId) (map snd (listings s))"

definition getAllListings :: "MemStorage \<Rightarrow> Listing list" where
  "getAllListings s =
     sortCmp (\<lambda>a b. l_createdAt b - l_createdAt a) (map snd (listings s))"

definition createListing ::
  "string \<Rightarrow> int \<Rightarrow> InsertListing \<Rightarrow> MemStorage \<Rightarrow> Listing \<times> MemStorage" where
  "createListing uid now insertListing s =
     (let listing = \<lparr>
            l_id = uid,
            l_vehicleId = il_vehicleId insertListing,
            l_title = il_title insertListing,
            l_platform = il_platform insertListing,
            l_status =
              (case il_status insertListing of
                 Val st \<Rightarrow> (if st \<noteq> [] then st else ''draft'')
               | _ \<Rightarrow> ''draft''),
            l_listingData = il_listingData insertListing,
            l_createdAt = now,
            l_updatedAt = now \<rparr>
      in (listing, s\<lparr> listings := AList.update uid listing (listings s) \<rparr>))"

definition updateListing ::
  "string \<Rightarrow> int \<Rightarrow> PartialListing \<Rightarrow> MemStorage \<Rightarrow> Listing option \<times> MemStorage" where
  "updateListing ident now updateData s =
     (case map_of (listings s) ident of
        None \<Rightarrow> (None, s)
      | Some existing \<Rightarrow>
          (let updated = \<lparr>
                 l_id = l_id existing,
                 l_vehicleId = spreadOpt (l_vehicleId existing) (pl_vehicleId updateData),
                 l_title = spreadReq (l_title existing) (pl_title updateData),
                 l_platform = spreadReq (l_platform existing) (pl_platform updateData),
                 l_status = spreadReq (l_status existing) (pl_status updateData),
                 l_listingData = spreadOpt (l_listingData existing) (pl_listingData updateData),
                 l_createdAt = l_createdAt existing,
                 l_updatedAt = now \<rparr>
           in (Some updated, s\<lparr> listings := AList.update ident updated (listings s) \<rparr>)))"

definition deleteListing :: "string \<Rightarrow> MemStorage \<Rightarrow> bool \<times> MemStorage" where
  "deleteListing ident s =
     (map_of (listings s) ident \<noteq> None,
      s\<lparr> listings := AList.delete ident (listings s) \<rparr>)"

subsection \<open>AI extraction methods\<close>

definition getAiExtraction :: "string \<Rightarrow> MemStorage \<Rightarrow> AiExtraction option" where
  "getAiExtraction ident s = map_of (aiExtractions s) ident"

definition getAiExtractionsByVehicle :: "string \<Rightarrow> MemStorage \<Rightarrow> AiExtraction list" where
  "getAiExtractionsByVehicle vehicleId s =
     filter (\<lambda>extraction. e_vehicleId extraction = Val vehicleId) (map snd (aiExtractions s))"

definition createAiExtraction ::
  "string \<Rightarrow> int \<Rightarrow> InsertAiExtraction \<Rightarrow> MemStorage \<Rightarrow> AiExtraction \<times> MemStorage" where
  "createAiExtraction uid now insertExtraction s =
     (let extraction = \<lparr>
            e_id = uid,
            e_vehicleId =
              (if truthyStr (ie_vehicleId insertExtraction) then ie_vehicleId insertExtraction
               else Null),
            e_imageUrl = ie_imageUrl insertExtraction,
            e_extractedText = ie_extractedText insertExtraction,
            e_confidence = ie_confidence insertExtraction,
            e_extractedData = ie_extractedData insertExtraction,
            e_createdAt = now \<rparr>
      in (extraction, s\<lparr> aiExtractions := AList.update uid extraction (aiExtractions s) \<rparr>))"

section \<open>Strings\<close>

text \<open>
  Character classes are written with character codes, as the ranges of the regular
  expressions are. \<open>\s\<close> is tab, line feed, vertical tab, form feed, carriage return,
  space and the no-break space.
\<close>

definition code :: "char \<Rightarrow> nat" where
  "code c = of_char c"

definition isSpace :: "char \<Rightarrow> bool" where
  "isSpace c \<longleftrightarrow> code c \<in> {9, 10, 11, 12, 13, 32, 160}"

definition isDigit :: "char \<Rightarrow> bool" where
  "isDigit c \<longleftrightarrow> 48 \<le> code c \<and> code c \<le> 57"

definition isUpper :: "char \<Rightarrow> bool" where
  "isUpper c \<longleftrightarrow> 65 \<le> code c \<and> code c \<le> 90"

definition isLower :: "char \<Rightarrow> bool" where
  "isLower c \<longleftrightarrow> 97 \<le> code c \<and> code c \<le> 122"

text \<open>
  \<open>String.prototype.toLowerCase\<close> on codes below 256: the ASCII capitals and the
  Latin-1 capitals (192 to 222 without the multiplication sign 215) move up by 32.
\<close>

definition lowerChar :: "char \<Rightarrow> char" where
  "lowerChar c =
     (if isUpper c \<or> (192 \<le> code c \<and> code c \<le> 222 \<and> code c \<noteq> 215)
      then char_of (code c + 32) else c)"

definition toLowerCase :: "string \<Rightarrow> string" where
  "toLowerCase s = map lowerChar s"

text \<open>
  Case folding of a regular expression with the \<open>i\<close> flag and without the \<open>u\<close> flag:
  a character is compared by its upper-case form, and a character outside ASCII is never
  folded onto an ASCII one. The literals and classes of the patterns below are ASCII, so only
  the folding of the ASCII small letters decides a match.
\<close>

definition canonicalize :: "char \<Rightarrow> char" where
  "canonicalize c = (if isLower c then char_of (code c - 32) else c)"

text \<open>\<open>String.prototype.trim\<close>.\<close>

definition trim :: "string \<Rightarrow> string" where
  "trim s = rev (dropWhile isSpace (rev (dropWhile isSpace s)))"

text \<open>\<open>x || undefined\<close> on an optional string.\<close>

definition orUndefined :: "string optional \<Rightarrow> string optional" where
  "orUndefined x = (if truthyStr x then x else Undefined)"

text \<open>Decimal digits of a natural number, as \<open>${n}\<close> prints an integer.\<close>

fun showNat :: "nat \<Rightarrow> string" where
  "showNat n =
     (if n < 10 then [char_of (48 + n)]
      else showNat (n div 10) @ [char_of (48 + n mod 10)])"

declare showNat.simps [simp del]

definition showInt :: "int \<Rightarrow> string" where
  "showInt i = (if i < 0 then CHR ''-'' # showNat (nat (- i)) else showNat (nat i))"

text \<open>
  A JavaScript number that came from digits: not a number, a finite integer value, or an
  infinity.
\<close>

datatype number = NaN | Finite int | PlusInfinity | MinusInfinity

text \<open>
  The double nearest to a non-negative integer (ties to even): a number below \<open>2^53\<close> is
  itself; a longer one keeps its 53 leading bits, rounded; \<open>None\<close> when the result is
  beyond the largest double.
\<close>

function bitLength :: "int \<Rightarrow> nat" where
  "bitLength n = (if n \<le> 0 then 0 else Suc (bitLength (n div 2)))"
  by pat_completeness auto
termination
  by (relation "measure nat") auto

declare bitLength.simps [simp del]

definition toDouble :: "int \<Rightarrow> int option" where
  "toDouble n =
     (if n < 2 ^ 53 then Some n
      else
        (let e = bitLength n - 53;
             q = n div 2 ^ e;
             r = n mod 2 ^ e;
             q' = (if 2 * r > 2 ^ e \<or> (2 * r = 2 ^ e \<and> odd q) then q + 1 else q);
             v = q' * 2 ^ e
         in if v \<ge> 2 ^ 1024 then None else Some v))"

text \<open>
  \<open>parseInt\<close> with no radix: leading white space is skipped, a sign is read, a
  \<open>0x\<close> prefix selects base 16, and the longest run of digits is the value, rounded to a
  double; no digit gives \<open>NaN\<close>.
\<close>

definition isHexDigit :: "char \<Rightarrow> bool" where
  "isHexDigit c \<longleftrightarrow>
     isDigit c \<or> (97 \<le> code c \<and> code c \<le> 102) \<or> (65 \<le> code c \<and> code c \<le> 70)"

definition digitValue :: "char \<Rightarrow> nat" where
  "digitValue c =
     (if isDigit c then code c - 48
      else if 97 \<le> code c \<and> code c \<le> 102 then code c - 87
      else code c - 55)"

definition parseInt :: "string \<Rightarrow> number" where
  "parseInt str =
     (let s0 = dropWhile isSpace str;
          neg = (case s0 of c # cs \<Rightarrow> c = CHR ''-'' | [] \<Rightarrow> False);
          s1 = (case s0 of c # cs \<Rightarrow> (if c = CHR ''+'' \<or> c = CHR ''-'' then cs else s0)
                | [] \<Rightarrow> s0);
          hex = (take 2 s1 = ''0x'' \<or> take 2 s1 = ''0X'');
          s2 = (if hex then drop 2 s1 else s1);
          z = takeWhile (if hex then isHexDigit else isDigit) s2;
          n = foldl (\<lambda>a c. a * (if hex then 16 else 10) + int (digitValue c)) 0 z
      in if z = [] then NaN
         else
           (case toDouble n of
              None \<Rightarrow> (if neg then MinusInfinity else PlusInfinity)
            | Some v \<Rightarrow> Finite (if neg then - v else v)))"

text \<open>\<open>String(x)\<close> of an optional string, as \<open>parseInt\<close> applies it to its argument.\<close>

fun toStringOf :: "string optional \<Rightarrow> string" where
  "toStringOf Undefined = ''undefined''"
| "toStringOf Null = ''null''"
| "toStringOf (Val t) = t"

text \<open>\<open>n || undefined\<close> on a number: \<open>NaN\<close> and zero are falsy.\<close>

fun numberOrUndefined :: "number \<Rightarrow> number optional" where
  "numberOrUndefined NaN = Undefined"
| "numberOrUndefined (Finite n) = (if n = 0 then Undefined else Val (Finite n))"
| "numberOrUndefined PlusInfinity = Val PlusInfinity"
| "numberOrUndefined MinusInfinity = Val MinusInfinity"

section \<open>VIN lookup (the \<open>VinLookupService\<close> class, imported as services/vin-lookup)\<close>

text \<open>\<open>/^[A-HJ-NPR-Z0-9]{17}$/\<close>: no \<open>i\<close> flag.\<close>

definition vinChar :: "char \<Rightarrow> bool" where
  "vinChar c \<longleftrightarrow>
     (65 \<le> code c \<and> code c \<le> 72) \<or> (74 \<le> code c \<and> code c \<le> 78) \<or> code c = 80 \<or>
     (82 \<le> code c \<and> code c \<le> 90) \<or> (48 \<le> code c \<and> code c \<le> 57)"

definition isValidVin :: "string \<Rightarrow> bool" where
  "isValidVin vin =
     (if length vin \<noteq> 17 then False
      else if \<not> (length vin = 17 \<and> list_all vinChar vin) then False
      else True)"

text \<open>
  \<open>mapFuelType\<close>. \<open>mappings\<close> is an object literal, so \<open>mappings[normalized]\<close> reads
  the object's own keys and then the keys it inherits from \<open>Object.prototype\<close>
  (\<open>({})["constructor"]\<close> is the function \<open>Object\<close>, \<open>({})["__proto__"]\<close> is
  \<open>Object.prototype\<close>). An inherited value is a function or an object, so it is truthy and
  \<open>|| "gasoline"\<close> does not replace it.
\<close>

datatype fuelValue = FuelUndefined | FuelString string | FuelInherited string

definition mappings :: "(string \<times> string) list" where
  "mappings = [
     (''gasoline'', ''gasoline''),
     (''gas'', ''gasoline''),
     (''electric'', ''electric''),
     (''hybrid'', ''hybrid''),
     (''diesel'', ''diesel''),
     (''flex fuel'', ''gasoline''),
     (''e85'', ''gasoline'')]"

definition objectPrototypeKeys :: "string list" where
  "objectPrototypeKeys = [
     ''constructor'', ''__defineGetter__'', ''__defineSetter__'', ''hasOwnProperty'',
     ''__lookupGetter__'', ''__lookupSetter__'', ''isPrototypeOf'', ''propertyIsEnumerable'',
     ''toString'', ''valueOf'', ''__proto__'', ''toLocaleString'']"

definition mapFuelType :: "string optional \<Rightarrow> fuelValue" where
  "mapFuelType fuelType =
     (case fuelType of
        Val s \<Rightarrow>
          (if s = [] then FuelUndefined
           else
             (let normalized = toLowerCase s in
              case map_of mappings normalized of
                Some v \<Rightarrow> FuelString v
              | None \<Rightarrow>
                  (if normalized \<in> set objectPrototypeKeys then FuelInherited normalized
                   else FuelString ''gasoline'')))
      | _ \<Rightarrow> FuelUndefined)"

record VinLookupResult =
  r_make :: "string optional"
  r_model :: "string optional"
  r_year :: "number optional"
  r_trim :: "string optional"
  r_engine :: "string optional"
  r_transmission :: "string optional"
  r_fuelType :: fuelValue
  r_bodyStyle :: "string optional"
  r_drivetrain :: "string optional"
  r_success :: bool
  r_source :: "string optional"
  r_error :: "string optional"

definition failure :: "string \<Rightarrow> VinLookupResult" where
  "failure msg = \<lparr>
     r_make = Undefined, r_model = Undefined, r_year = Undefined, r_trim = Undefined,
     r_engine = Undefined, r_transmission = Undefined, r_fuelType = FuelUndefined,
     r_bodyStyle = Undefined, r_drivetrain = Undefined,
     r_success = False, r_source = Undefined, r_error = Val msg \<rparr>"

text \<open>
  The first element of \<open>Results\<close> in the registry's answer. The fields the service reads
  are strings when present.
\<close>

record NhtsaResult =
  ErrorCode :: "string optional"
  ErrorText :: "string optional"
  Make :: "string optional"
  Model :: "string optional"
  ModelYear :: "string optional"
  Trim :: "string optional"
  EngineHP :: "string optional"
  TransmissionStyle :: "string optional"
  FuelTypePrimary :: "string optional"
  BodyClass :: "string optional"
  DriveType :: "string optional"

text \<open>
  What the one \<open>fetch\<close> of \<open>lookupWithNHTSA\<close> meets: the request is rejected with an
  error, or a response arrives with a status and a body; \<open>response.json()\<close> rejects with
  an error, or gives \<open>null\<close> (then reading \<open>data.Results\<close> throws a type error), or gives
  a value whose \<open>Results?.[0]\<close> is falsy (\<open>None\<close>) or a result. The errors come with
  their messages.
\<close>

datatype jsonOutcome = JsonRejects string | JsonNull string | JsonResults "NhtsaResult option"

datatype fetchOutcome = FetchRejects string | Response nat jsonOutcome

text \<open>
  The outbound calls are recorded: every \<open>fetch\<close> appends its URL to the list of calls.
  A thrown error is \<open>Inl\<close> with its message.
\<close>

definition lookupWithNHTSA ::
  "string \<Rightarrow> string \<Rightarrow> fetchOutcome \<Rightarrow> string list \<Rightarrow> (string + VinLookupResult) \<times> string list"
  where
  "lookupWithNHTSA baseUrl vin outcome calls =
     (let url = baseUrl @ ''/vehicles/DecodeVinValues/'' @ vin @ ''?format=json'';
          calls' = calls @ [url]
      in case outcome of
           FetchRejects msg \<Rightarrow> (Inl msg, calls')
         | Response status body \<Rightarrow>
             (if \<not> (200 \<le> status \<and> status \<le> 299)
              then (Inl (''NHTSA API error: '' @ showNat status), calls')
              else
                (case body of
                   JsonRejects msg \<Rightarrow> (Inl msg, calls')
                 | JsonNull msg \<Rightarrow> (Inl msg, calls')
                 | JsonResults None \<Rightarrow>
                     (Inr (failure ''VIN not found in NHTSA database''), calls')
                 | JsonResults (Some result) \<Rightarrow>
                     (if ErrorCode result \<noteq> Val ''0''
                      then
                        (Inr (failure
                           (case orUndefined (ErrorText result) of
                              Val t \<Rightarrow> t
                            | _ \<Rightarrow> ''VIN not found in NHTSA database'')),
                         calls')
                      else
                        (Inr \<lparr>
                           r_make = orUndefined (Make result),
                           r_model = orUndefined (Model result),
                           r_year = numberOrUndefined (parseInt (toStringOf (ModelYear result))),
                           r_trim = orUndefined (Trim result),
                           r_engine =
                             (case orUndefined (EngineHP result) of
                                Val hp \<Rightarrow> Val (hp @ '' HP'')
                              | _ \<Rightarrow> Undefined),
                           r_transmission = orUndefined (TransmissionStyle result),
                           r_fuelType = mapFuelType (FuelTypePrimary result),
                           r_bodyStyle = orUndefined (BodyClass result),
                           r_drivetrain = orUndefined (DriveType result),
                           r_success = True,
                           r_source = Val ''NHTSA'',
                           r_error = Undefined \<rparr>,
                         calls')))))"

text \<open>The commercial fallback is a placeholder: it makes no call.\<close>

definition lookupWithCommercialAPI :: "string \<Rightarrow> string list \<Rightarrow> VinLookupResult \<times> string list"
  where
  "lookupWithCommercialAPI vin calls = (failure ''Commercial VIN API not configured'', calls)"

text \<open>
  \<open>lookupVin\<close>, with the service's \<open>apiKey\<close> and \<open>baseUrl\<close>; the result comes with the
  calls made, starting from none.
\<close>

definition lookupVin ::
  "string \<Rightarrow> string \<Rightarrow> string \<Rightarrow> fetchOutcome \<Rightarrow> VinLookupResult \<times> string list" where
  "lookupVin apiKey baseUrl vin outcome =
     (if \<not> isValidVin vin
      then (failure ''Invalid VIN format. VIN must be 17 characters.'', [])
      else
        (case lookupWithNHTSA baseUrl vin outcome [] of
           (Inl thrown, calls) \<Rightarrow>
             (failure ''VIN lookup failed. Please try again or enter information manually.'',
              calls)
         | (Inr nhtsaResult, calls) \<Rightarrow>
             (if r_success nhtsaResult then (nhtsaResult, calls)
              else if apiKey \<noteq> [] then lookupWithCommercialAPI vin calls
              else
                (failure
                   ''VIN lookup service unavailable. Please enter vehicle information manually.'',
                 calls))))"

subsection \<open>The client's checks of the same shape (the \<open>VinLookupClient\<close> class)\<close>

text \<open>\<open>validateVin\<close>: the same pattern with the \<open>i\<close> flag, \<open>/^[A-HJ-NPR-Z0-9]{17}$/i\<close>.\<close>

definition validateVin :: "string \<Rightarrow> bool \<times> string optional" where
  "validateVin vin =
     (if length vin \<noteq> 17 then (False, Val ''VIN must be exactly 17 characters'')
      else if \<not> (length vin = 17 \<and> list_all (\<lambda>c. vinChar (canonicalize c)) vin)
      then (False, Val ''VIN contains invalid characters'')
      else (True, Undefined))"

section \<open>Image intake (server/services/image-processor.ts)\<close>

text \<open>
  A file part of the multipart request, as multer holds it in memory; the buffer is its list
  of bytes.
\<close>

record UploadedFile =
  f_fieldname :: string
  f_originalname :: string
  f_mimetype :: string
  f_size :: nat
  f_buffer :: "nat list"

record ProcessedImage =
  pi_filename :: string
  pi_originalName :: string
  pi_size :: nat
  pi_mimetype :: string
  pi_base64 :: string
  pi_url :: string

text \<open>\<open>Buffer.toString("base64")\<close>: three bytes give four characters, with \<open>=\<close> padding.\<close>

definition base64Alphabet :: string where
  "base64Alphabet = ''ABCDEFGHIJKLMNOPQRSTUVWXYZabcdefghijklmnopqrstuvwxyz0123456789+/''"

definition base64Char :: "nat \<Rightarrow> char" where
  "base64Char n = base64Alphabet ! (n mod 64)"

fun base64 :: "nat list \<Rightarrow> string" where
  "base64 [] = []"
| "base64 [a] =
     [base64Char (a div 4), base64Char ((a mod 4) * 16), CHR ''='', CHR ''='']"
| "base64 [a, b] =
     [base64Char (a div 4), base64Char ((a mod 4) * 16 + b div 16),
      base64Char ((b mod 16) * 4), CHR ''='']"
| "base64 (a # b # c # rest) =
     [base64Char (a div 4), base64Char ((a mod 4) * 16 + b div 16),
      base64Char ((b mod 16) * 4 + c div 64), base64Char (c mod 64)] @ base64 rest"

text \<open>
  \<open>path.extname\<close> (POSIX): trailing slashes are skipped; the result is the text from the
  last dot of the last path segment, and it is empty when that segment has no dot, or only
  a leading one, or is \<open>..\<close>.
\<close>

definition basename :: "string \<Rightarrow> string" where
  "basename p =
     rev (takeWhile (\<lambda>c. c \<noteq> CHR ''/'') (dropWhile (\<lambda>c. c = CHR ''/'') (rev p)))"

definition extname :: "string \<Rightarrow> string" where
  "extname p =
     (let base = basename p;
          ext = rev (takeWhile (\<lambda>c. c \<noteq> CHR ''.'') (rev base))
      in if CHR ''.'' \<notin> set base \<or> length ext + 1 = length base \<or> base = ''..'' then []
         else CHR ''.'' # ext)"

text \<open>
  \<open>processUploadedImage\<close>. \<open>uid\<close> is the value of \<open>randomUUID()\<close>;
  \<open>writeError\<close> is the error with which \<open>mkdir\<close> or \<open>writeFile\<close> rejects, if one
  does, in which case the call throws it.
\<close>

definition processUploadedImage ::
  "string \<Rightarrow> string option \<Rightarrow> nat list \<Rightarrow> string \<Rightarrow> string \<Rightarrow> string + ProcessedImage"
  where
  "processUploadedImage uid writeError buffer originalName mimetype =
     (case writeError of
        Some msg \<Rightarrow> Inl msg
      | None \<Rightarrow>
        (let ext = extname originalName;
             filename = uid @ ext
         in Inr \<lparr>
              pi_filename = filename,
              pi_originalName = originalName,
              pi_size = length buffer,
              pi_mimetype = mimetype,
              pi_base64 = base64 buffer,
              pi_url = ''/uploads/vehicles/'' @ filename \<rparr>))"

definition allowedTypes :: "string list" where
  "allowedTypes = [''image/jpeg'', ''image/jpg'', ''image/png'', ''image/webp'']"

definition maxSize :: nat where
  "maxSize = 10 * 1024 * 1024"

text \<open>\<open>validateImageFile\<close> throws (\<open>Inl\<close>) or returns nothing.\<close>

definition validateImageFile :: "string \<Rightarrow> nat \<Rightarrow> string + unit" where
  "validateImageFile mimetype fileSize =
     (if toLowerCase mimetype \<notin> set allowedTypes
      then Inl ''Invalid file type. Only JPEG, PNG, and WEBP images are allowed.''
      else if fileSize > maxSize then Inl ''File too large. Maximum size is 10MB.''
      else Inr ())"

definition optimizeImage :: "nat list \<Rightarrow> nat list" where
  "optimizeImage buffer = buffer"

section \<open>Vision inference (the \<open>OllamaService\<close> class)\<close>

subsection \<open>The regular expressions\<close>

text \<open>
  \<open>/\{[\s\S]*\}/\<close>: the match starts at the first opening brace and, the star being
  greedy, ends at the last closing brace after it; there is no match when no closing brace
  follows the first opening one.
\<close>

definition jsonMatch :: "string \<Rightarrow> string option" where
  "jsonMatch text =
     (case dropWhile (\<lambda>c. c \<noteq> CHR ''{'') text of
        [] \<Rightarrow> None
      | c # inner \<Rightarrow>
          (if CHR ''}'' \<in> set inner
           then Some (c # rev (dropWhile (\<lambda>d. d \<noteq> CHR ''}'') (rev inner)))
           else None))"

text \<open>
  A search tries every start position from the left. At a position the patterns of
  \<open>parseTextResponse\<close> read a literal (case-insensitively), then \<open>[:\s]+\<close>, then a
  group. \<open>[:\s]+\<close> is greedy and gives characters back one at a time until the group
  matches.
\<close>

fun searchRe :: "(string \<Rightarrow> 'a option) \<Rightarrow> string \<Rightarrow> 'a option" where
  "searchRe m [] = m []"
| "searchRe m (c # cs) = (case m (c # cs) of Some r \<Rightarrow> Some r | None \<Rightarrow> searchRe m cs)"

fun prefixCI :: "string \<Rightarrow> string \<Rightarrow> string option" where
  "prefixCI [] t = Some t"
| "prefixCI (p # ps) [] = None"
| "prefixCI (p # ps) (c # cs) =
     (if canonicalize p = canonicalize c then prefixCI ps cs else None)"

definition isSeparator :: "char \<Rightarrow> bool" where
  "isSeparator c \<longleftrightarrow> c = CHR '':'' \<or> isSpace c"

fun firstSome :: "'a option list \<Rightarrow> 'a option" where
  "firstSome [] = None"
| "firstSome (Some x # xs) = Some x"
| "firstSome (None # xs) = firstSome xs"

definition afterSeparators :: "(string \<Rightarrow> string option) \<Rightarrow> string \<Rightarrow> string option" where
  "afterSeparators grp rest =
     (let n = length (takeWhile isSeparator rest)
      in firstSome (map (\<lambda>k. grp (drop k rest)) (rev [1 ..< Suc n])))"

definition matchLabelled :: "string \<Rightarrow> (string \<Rightarrow> string option) \<Rightarrow> string \<Rightarrow> string option"
  where
  "matchLabelled label grp text =
     searchRe (\<lambda>t. case prefixCI label t of None \<Rightarrow> None | Some rest \<Rightarrow> afterSeparators grp rest)
       text"

text \<open>A group that is a character class with \<open>+\<close>: the longest non-empty run.\<close>

definition runOf :: "(char \<Rightarrow> bool) \<Rightarrow> string \<Rightarrow> string option" where
  "runOf cls t = (let g = takeWhile cls t in if g = [] then None else Some g)"

text \<open>\<open>[A-Z0-9\-\s]\<close> under the \<open>i\<close> flag.\<close>

definition plateChar :: "char \<Rightarrow> bool" where
  "plateChar c \<longleftrightarrow> isUpper (canonicalize c) \<or> isDigit c \<or> c = CHR ''-'' \<or> isSpace c"

text \<open>\<open>[^.\n]\<close>.\<close>

definition damageChar :: "char \<Rightarrow> bool" where
  "damageChar c \<longleftrightarrow> c \<noteq> CHR ''.'' \<and> c \<noteq> CHR 0x0A"

text \<open>\<open>(excellent|good|fair|poor)\<close>: the first alternative that matches, as the text has it.\<close>

definition conditionWord :: "string \<Rightarrow> string option" where
  "conditionWord t =
     firstSome (map (\<lambda>w. case prefixCI w t of None \<Rightarrow> None | Some rest \<Rightarrow> Some (take (length w) t))
       [''excellent'', ''good'', ''fair'', ''poor''])"

subsection \<open>parseTextResponse\<close>

text \<open>A result object is the list of its properties; a property is set with \<open>AList.update\<close>.\<close>

definition parseTextResponse :: "string \<Rightarrow> (string \<times> jsval) list" where
  "parseTextResponse text =
     (let result = [];
          result =
            (case matchLabelled ''license plate'' (runOf plateChar) text of
               Some g \<Rightarrow> AList.update ''licensePlate'' (JStr (trim g)) result
             | None \<Rightarrow> result);
          result =
            (case matchLabelled ''damage'' (runOf damageChar) text of
               Some g \<Rightarrow> AList.update ''damage'' (JStr (trim g)) result
             | None \<Rightarrow> result);
          result =
            (case matchLabelled ''interior'' conditionWord text of
               Some g \<Rightarrow> AList.update ''interior'' (JStr (toLowerCase g)) result
             | None \<Rightarrow> result);
          result =
            (case matchLabelled ''exterior'' conditionWord text of
               Some g \<Rightarrow> AList.update ''exterior'' (JStr (toLowerCase g)) result
             | None \<Rightarrow> result)
      in result)"

subsection \<open>analyzeVehicleImage\<close>

text \<open>
  What the request to the inference endpoint meets: \<open>fetch\<close> rejects with a message, or
  a response arrives with a status, a status text and a body. \<open>response.json()\<close> rejects
  with a message, or gives a value whose \<open>response\<close> is not a string (then \<open>.match\<close>
  throws a type error, and again inside \<open>parseTextResponse\<close>, with that message), or gives
  the response text.
\<close>

datatype ollamaBody = BodyRejects string | BodyNoText string | BodyText string

datatype ollamaOutcome = OllamaRejects string | OllamaResponse nat string ollamaBody

text \<open>
  \<open>JSON.parse\<close> is a parameter: on the matched span, which starts with a brace, it gives
  the properties of the parsed object, or \<open>None\<close> when it throws.
\<close>

type_synonym jsonParser = "string \<Rightarrow> (string \<times> jsval) list option"

text \<open>
  The part of \<open>analyzeVehicleImage\<close> after the response text is known:
  \<open>{...extractedData, confidence, extractedText, rawResponse}\<close>.
\<close>

definition analyzeResponse :: "jsonParser \<Rightarrow> string \<Rightarrow> (string \<times> jsval) list" where
  "analyzeResponse JSON_parse response =
     (let (extractedData, confidence) =
            (case jsonMatch response of
               None \<Rightarrow> ([], 50)
             | Some span \<Rightarrow>
                 (case JSON_parse span of
                    Some parsed \<Rightarrow> (parsed, 85)
                  | None \<Rightarrow> (parseTextResponse response, 60)))
      in AList.update ''rawResponse'' (JStr response)
           (AList.update ''extractedText'' (JStr response)
              (AList.update ''confidence'' (JNum confidence) extractedData)))"

definition analyzeVehicleImage ::
  "jsonParser \<Rightarrow> ollamaOutcome \<Rightarrow> string \<Rightarrow> string + (string \<times> jsval) list" where
  "analyzeVehicleImage JSON_parse outcome imageBase64 =
     (case outcome of
        OllamaRejects msg \<Rightarrow> Inl (''Failed to analyze image with Ollama: '' @ msg)
      | OllamaResponse status statusText body \<Rightarrow>
          (if \<not> (200 \<le> status \<and> status \<le> 299)
           then Inl (''Failed to analyze image with Ollama: Ollama API error: '' @
                     showNat status @ '' '' @ statusText)
           else
             (case body of
                BodyRejects msg \<Rightarrow> Inl (''Failed to analyze image with Ollama: '' @ msg)
              | BodyNoText msg \<Rightarrow> Inl (''Failed to analyze image with Ollama: '' @ msg)
              | BodyText response \<Rightarrow> Inr (analyzeResponse JSON_parse response))))"

section \<open>Request validation (\<open>vehicleFormSchema\<close> of the shared schema)\<close>

text \<open>
  The schema is the insert schema of the \<open>vehicles\<close> table (a nullable column is an
  optional, nullable key; \<open>id\<close>, \<open>createdAt\<close> and \<open>updatedAt\<close> are omitted) extended
  with the bounds of \<open>vehicleFormSchema\<close>. Each key is checked on its own; \<open>None\<close>
  is a failed check. Keys the schema does not know are dropped.
\<close>

fun optionalString :: "jsval option \<Rightarrow> string optional option" where
  "optionalString None = Some Undefined"
| "optionalString (Some JNull) = Some Null"
| "optionalString (Some (JStr t)) = Some (Val t)"
| "optionalString (Some _) = None"

fun asString :: "jsval \<Rightarrow> string option" where
  "asString (JStr t) = Some t"
| "asString _ = None"

fun optionalStringArray :: "jsval option \<Rightarrow> string list optional option" where
  "optionalStringArray None = Some Undefined"
| "optionalStringArray (Some JNull) = Some Null"
| "optionalStringArray (Some (JArr xs)) =
     (if list_all (\<lambda>x. asString x \<noteq> None) xs then Some (Val (map (\<lambda>x. the (asString x)) xs))
      else None)"
| "optionalStringArray (Some _) = None"

fun optionalJson :: "jsval option \<Rightarrow> jsval optional option" where
  "optionalJson None = Some Undefined"
| "optionalJson (Some JNull) = Some Null"
| "optionalJson (Some v) = Some (Val v)"

text \<open>\<open>z.number().min(lo).max(hi)\<close>.\<close>

fun numberBetween :: "int \<Rightarrow> int \<Rightarrow> jsval option \<Rightarrow> int option" where
  "numberBetween lo hi (Some (JNum n)) = (if lo \<le> n \<and> n \<le> hi then Some n else None)"
| "numberBetween lo hi _ = None"

text \<open>\<open>z.string().min(n)\<close>.\<close>

fun stringMin :: "nat \<Rightarrow> jsval option \<Rightarrow> string option" where
  "stringMin n (Some (JStr t)) = (if n \<le> length t then Some t else None)"
| "stringMin n _ = None"

text \<open>\<open>z.enum([...])\<close>.\<close>

fun enumOf :: "string list \<Rightarrow> jsval option \<Rightarrow> string option" where
  "enumOf names (Some (JStr t)) = (if t \<in> set names then Some t else None)"
| "enumOf names _ = None"

definition issue :: "string \<Rightarrow> 'a option \<Rightarrow> string list" where
  "issue name checked = (case checked of None \<Rightarrow> [name] | Some v \<Rightarrow> [])"

text \<open>
  \<open>vehicleFormSchema.parse\<close>: the validated payload, or (\<open>Inl\<close>) the keys with an issue,
  which is the \<open>ZodError\<close> thrown. \<open>maxYear\<close> is \<open>new Date().getFullYear() + 1\<close> at the
  time the module was loaded.
\<close>

definition vehicleFormSchema_parse :: "int \<Rightarrow> jsval \<Rightarrow> string list + InsertVehicle" where
  "vehicleFormSchema_parse maxYear body =
     (case body of
        JObj props \<Rightarrow>
          (let key = map_of props;
               vin = optionalString (key ''vin'');
               year = numberBetween 1900 maxYear (key ''year'');
               make = stringMin 1 (key ''make'');
               model = stringMin 1 (key ''model'');
               trim = optionalString (key ''trim'');
               mileage = numberBetween 0 999999 (key ''mileage'');
               transmission = enumOf [''automatic'', ''manual'', ''cvt''] (key ''transmission'');
               fuelType =
                 enumOf [''gasoline'', ''hybrid'', ''electric'', ''diesel''] (key ''fuelType'');
               condition = enumOf [''excellent'', ''good'', ''fair'', ''poor''] (key ''condition'');
               price = numberBetween 1 999999 (key ''price'');
               location = stringMin 1 (key ''location'');
               description = stringMin 10 (key ''description'');
               features = optionalStringArray (key ''features'');
               images = optionalStringArray (key ''images'');
               aiExtractedData = optionalJson (key ''aiExtractedData'');
               issues =
                 issue ''vin'' vin @ issue ''year'' year @ issue ''make'' make @
                 issue ''model'' model @ issue ''trim'' trim @ issue ''mileage'' mileage @
                 issue ''transmission'' transmission @ issue ''fuelType'' fuelType @
                 issue ''condition'' condition @ issue ''price'' price @
                 issue ''location'' location @ issue ''description'' description @
                 issue ''features'' features @ issue ''images'' images @
                 issue ''aiExtractedData'' aiExtractedData
           in if issues \<noteq> [] then Inl issues
              else Inr \<lparr>
                iv_vin = the vin, iv_year = the year, iv_make = the make, iv_model = the model,
                iv_trim = the trim, iv_mileage = the mileage,
                iv_transmission = the transmission, iv_fuelType = the fuelType,
                iv_condition = the condition, iv_price = the price,
                iv_location = the location, iv_description = the description,
                iv_features = the features, iv_images = the images,
                iv_aiExtractedData = the aiExtractedData \<rparr>)
      | _ \<Rightarrow> Inl [''body''])"

section \<open>The routes (server/routes.ts)\<close>

subsection \<open>Listing text\<close>

text \<open>
  \<open>Number.prototype.toLocaleString()\<close> on an integer, in the \<open>en-US\<close> locale of the
  process: the decimal digits in groups of three from the right, separated by commas.
\<close>

definition digit :: "nat \<Rightarrow> char" where
  "digit d = char_of (48 + d)"

fun groupNat :: "nat \<Rightarrow> string" where
  "groupNat n =
     (if n < 1000 then showNat n
      else groupNat (n div 1000) @
           [CHR '','', digit (n mod 1000 div 100), digit (n mod 100 div 10), digit (n mod 10)])"

declare groupNat.simps [simp del]

definition toLocaleString :: "int \<Rightarrow> string" where
  "toLocaleString i = (if i < 0 then CHR ''-'' # groupNat (nat (- i)) else groupNat (nat i))"

text \<open>\<open>Array.prototype.join\<close>.\<close>

fun join :: "string \<Rightarrow> string list \<Rightarrow> string" where
  "join sep [] = []"
| "join sep [x] = x"
| "join sep (x # y # ys) = x @ sep @ join sep (y # ys)"

text \<open>
  The description's line breaks and glyphs. The glyphs lie outside the characters of the
  model and are written as their UTF-8 bytes.
\<close>

definition newline :: string where
  "newline = [CHR 0x0A]"

definition bullet :: string where
  "bullet = [CHR 0xE2, CHR 0x80, CHR 0xA2]"

definition pinGlyph :: string where
  "pinGlyph = [CHR 0xF0, CHR 0x9F, CHR 0x93, CHR 0x8D]"

definition carGlyph :: string where
  "carGlyph = [CHR 0xF0, CHR 0x9F, CHR 0x9A, CHR 0x97]"

definition gearGlyph :: string where
  "gearGlyph = [CHR 0xE2, CHR 0x9A, CHR 0x99, CHR 0xEF, CHR 0xB8, CHR 0x8F]"

definition pumpGlyph :: string where
  "pumpGlyph = [CHR 0xE2, CHR 0x9B, CHR 0xBD]"

definition sparkGlyph :: string where
  "sparkGlyph = [CHR 0xE2, CHR 0x9C, CHR 0xA8]"

record VehicleDetails =
  vd_year :: int
  vd_make :: string
  vd_model :: string
  vd_trim :: "string optional"
  vd_mileage :: int
  vd_transmission :: string
  vd_fuelType :: string
  vd_condition :: string

record ListingContent =
  lc_title :: string
  lc_description :: string
  lc_price :: int
  lc_location :: string
  lc_images :: "string list"
  lc_features :: "string list"
  lc_vehicleDetails :: VehicleDetails

text \<open>\<open>x || []\<close> on an optional array.\<close>

fun orEmpty :: "'a list optional \<Rightarrow> 'a list" where
  "orEmpty (Val xs) = xs"
| "orEmpty _ = []"

definition generateListingContent :: "Vehicle \<Rightarrow> string \<Rightarrow> ListingContent" where
  "generateListingContent vehicle platform =
     (let features = orEmpty (v_features vehicle);
          featuresText =
            (if length features > 0
             then newline @ newline @ ''Features:'' @ newline @ bullet @ '' '' @
                  join (newline @ bullet @ '' '') features
             else []);
          title =
            showInt (v_year vehicle) @ '' '' @ v_make vehicle @ '' '' @ v_model vehicle @
            (case v_trim vehicle of
               Val t \<Rightarrow> (if t \<noteq> [] then '' '' @ t else [])
             | _ \<Rightarrow> []) @
            '' - $'' @ toLocaleString (v_price vehicle);
          description =
            v_description vehicle @ featuresText @ newline @ newline @
            pinGlyph @ '' Location: '' @ v_location vehicle @ newline @
            carGlyph @ '' Mileage: '' @ toLocaleString (v_mileage vehicle) @ '' miles'' @ newline @
            gearGlyph @ '' Transmission: '' @ v_transmission vehicle @ newline @
            pumpGlyph @ '' Fuel Type: '' @ v_fuelType vehicle @ newline @
            sparkGlyph @ '' Condition: '' @ v_condition vehicle @ newline @ newline @
            ''Serious inquiries only. Cash, financing, or trade considered.''
      in \<lparr>
           lc_title = title,
           lc_description = description,
           lc_price = v_price vehicle,
           lc_location = v_location vehicle,
           lc_images = orEmpty (v_images vehicle),
           lc_features = orEmpty (v_features vehicle),
           lc_vehicleDetails = \<lparr>
             vd_year = v_year vehicle,
             vd_make = v_make vehicle,
             vd_model = v_model vehicle,
             vd_trim = v_trim vehicle,
             vd_mileage = v_mileage vehicle,
             vd_transmission = v_transmission vehicle,
             vd_fuelType = v_fuelType vehicle,
             vd_condition = v_condition vehicle \<rparr> \<rparr>)"

text \<open>The generated content as the JSON value held in the listing's \<open>listingData\<close>.\<close>

definition optionalJStr :: "string \<Rightarrow> string optional \<Rightarrow> (string \<times> jsval) list" where
  "optionalJStr name x =
     (case x of Undefined \<Rightarrow> [] | Null \<Rightarrow> [(name, JNull)] | Val t \<Rightarrow> [(name, JStr t)])"

definition contentJson :: "ListingContent \<Rightarrow> jsval" where
  "contentJson c =
     JObj [
       (''title'', JStr (lc_title c)),
       (''description'', JStr (lc_description c)),
       (''price'', JNum (lc_price c)),
       (''location'', JStr (lc_location c)),
       (''images'', JArr (map JStr (lc_images c))),
       (''features'', JArr (map JStr (lc_features c))),
       (''vehicleDetails'',
          JObj ([(''year'', JNum (vd_year (lc_vehicleDetails c))),
                 (''make'', JStr (vd_make (lc_vehicleDetails c))),
                 (''model'', JStr (vd_model (lc_vehicleDetails c)))] @
                optionalJStr ''trim'' (vd_trim (lc_vehicleDetails c)) @
                [(''mileage'', JNum (vd_mileage (lc_vehicleDetails c))),
                 (''transmission'', JStr (vd_transmission (lc_vehicleDetails c))),
                 (''fuelType'', JStr (vd_fuelType (lc_vehicleDetails c))),
                 (''condition'', JStr (vd_condition (lc_vehicleDetails c)))]))]"

subsection \<open>Responses\<close>

record UploadExtraction =
  ue_imageUrl :: string
  ue_extractedText :: "jsval option"
  ue_confidence :: "jsval option"
  ue_extractedData :: "(string \<times> jsval) list"

datatype body =
    Message string
  | Issues "string list"
  | VehicleBody Vehicle
  | VehicleList "Vehicle list"
  | ListingBody Listing
  | ListingList "Listing list"
  | UploadBody "ProcessedImage list" "UploadExtraction list" string
  | ErrorPage string
  | NoBody

record response =
  status :: nat
  payload :: body

subsection \<open>Vehicle routes\<close>

definition get_vehicles :: "MemStorage \<Rightarrow> response" where
  "get_vehicles s = \<lparr> status = 200, payload = VehicleList (getAllVehicles s) \<rparr>"

text \<open>
  \<open>POST /api/vehicles\<close>. A \<open>ZodError\<close> is an \<open>Error\<close>, so a failed parse is answered
  with 400 and the error's message, here its issues.
\<close>

definition post_vehicles ::
  "int \<Rightarrow> string \<Rightarrow> int \<Rightarrow> jsval \<Rightarrow> MemStorage \<Rightarrow> response \<times> MemStorage" where
  "post_vehicles maxYear uid now reqBody s =
     (case vehicleFormSchema_parse maxYear reqBody of
        Inl issues \<Rightarrow> (\<lparr> status = 400, payload = Issues issues \<rparr>, s)
      | Inr validatedData \<Rightarrow>
          (let (vehicle, s') = createVehicle uid now validatedData s
           in (\<lparr> status = 201, payload = VehicleBody vehicle \<rparr>, s')))"

definition delete_vehicle :: "string \<Rightarrow> MemStorage \<Rightarrow> response \<times> MemStorage" where
  "delete_vehicle ident s =
     (let (success, s') = deleteVehicle ident s
      in if \<not> success then (\<lparr> status = 404, payload = Message ''Vehicle not found'' \<rparr>, s')
         else (\<lparr> status = 204, payload = NoBody \<rparr>, s'))"

subsection \<open>Image upload\<close>

text \<open>
  What the handling of one file meets outside the program: the generated file name, the
  error of writing to disk if it fails, and the outcome of the inference request.
\<close>

record FileEnv =
  env_uuid :: string
  env_writeError :: "string option"
  env_ollama :: ollamaOutcome

text \<open>
  The loop of the upload handler over \<open>req.files\<close>. An error thrown by the validation or by
  the intake leaves the loop (\<open>Inl\<close>); an error thrown by the analysis is caught inside the
  loop and the file gets no extraction.
\<close>

fun processFiles ::
  "jsonParser \<Rightarrow> (UploadedFile \<times> FileEnv) list \<Rightarrow> ProcessedImage list \<Rightarrow> UploadExtraction list \<Rightarrow>
   string + (ProcessedImage list \<times> UploadExtraction list)" where
  "processFiles JSON_parse [] processedImages extractions =
     Inr (processedImages, extractions)"
| "processFiles JSON_parse ((file, env) # files) processedImages extractions =
     (case validateImageFile (f_mimetype file) (f_size file) of
        Inl msg \<Rightarrow> Inl msg
      | Inr u \<Rightarrow>
          (case processUploadedImage (env_uuid env) (env_writeError env) (f_buffer file)
                  (f_originalname file) (f_mimetype file) of
             Inl msg \<Rightarrow> Inl msg
           | Inr processedImage \<Rightarrow>
               (case analyzeVehicleImage JSON_parse (env_ollama env) (pi_base64 processedImage) of
                  Inr aiResult \<Rightarrow>
                    processFiles JSON_parse files (processedImages @ [processedImage])
                      (extractions @ [\<lparr>
                         ue_imageUrl = pi_url processedImage,
                         ue_extractedText = map_of aiResult ''extractedText'',
                         ue_confidence = map_of aiResult ''confidence'',
                         ue_extractedData = aiResult \<rparr>])
                | Inl aiError \<Rightarrow>
                    processFiles JSON_parse files (processedImages @ [processedImage])
                      extractions)))"

text \<open>
  The multer middleware of the route, \<open>upload.array("images", 10)\<close> with the configured
  \<open>fileFilter\<close> and \<open>limits.fileSize\<close>. The file parts are taken in the order of the
  request; a part under another field name or beyond the tenth is an unexpected file, then
  the filter looks at the type, then the size limit is met while the part is read. The first
  error ends the request (\<open>Inl\<close>); without one the parts become \<open>req.files\<close>.
\<close>

definition fileFilter :: "UploadedFile \<Rightarrow> string + unit" where
  "fileFilter file =
     (if toLowerCase (f_mimetype file) \<in> set allowedTypes then Inr ()
      else Inl ''Invalid file type. Only JPEG, PNG, and WEBP images are allowed.'')"

definition fileSizeLimit :: nat where
  "fileSizeLimit = 10 * 1024 * 1024"

fun uploadArray ::
  "string \<Rightarrow> nat \<Rightarrow> (UploadedFile \<times> FileEnv) list \<Rightarrow> string + (UploadedFile \<times> FileEnv) list"
  where
  "uploadArray name filesLeft [] = Inr []"
| "uploadArray name filesLeft ((file, env) # parts) =
     (if f_fieldname file \<noteq> name \<or> filesLeft = 0 then Inl ''Unexpected field''
      else
        (case fileFilter file of
           Inl msg \<Rightarrow> Inl msg
         | Inr u \<Rightarrow>
             (if f_size file > fileSizeLimit then Inl ''File too large''
              else
                (case uploadArray name (filesLeft - 1) parts of
                   Inl msg \<Rightarrow> Inl msg
                 | Inr reqFiles \<Rightarrow> Inr ((file, env) # reqFiles)))))"

text \<open>The handler of \<open>POST /api/images/upload\<close>, on \<open>req.files\<close>.\<close>

definition upload_images :: "jsonParser \<Rightarrow> (UploadedFile \<times> FileEnv) list \<Rightarrow> response" where
  "upload_images JSON_parse files =
     (if length files = 0 then \<lparr> status = 400, payload = Message ''No images uploaded'' \<rparr>
      else
        (case processFiles JSON_parse files [] [] of
           Inl msg \<Rightarrow> \<lparr> status = 400, payload = Message msg \<rparr>
         | Inr (processedImages, extractions) \<Rightarrow>
             \<lparr> status = 200,
               payload = UploadBody processedImages extractions
                 (''Successfully uploaded '' @ showNat (length processedImages) @ '' images'') \<rparr>))"

text \<open>
  The route: the middleware, then the handler. An error of the middleware goes to the
  default error handler of Express, which answers 500 with an error page.
\<close>

definition post_images_upload :: "jsonParser \<Rightarrow> (UploadedFile \<times> FileEnv) list \<Rightarrow> response"
  where
  "post_images_upload JSON_parse parts =
     (case uploadArray ''images'' 10 parts of
        Inl err \<Rightarrow> \<lparr> status = 500, payload = ErrorPage err \<rparr>
      | Inr reqFiles \<Rightarrow> upload_images JSON_parse reqFiles)"

subsection \<open>Listing routes\<close>

definition get_listings :: "MemStorage \<Rightarrow> response" where
  "get_listings s = \<lparr> status = 200, payload = ListingList (getAllListings s) \<rparr>"

text \<open>
  \<open>POST /api/listings/generate\<close>. The request names the vehicle; \<open>platform\<close> is
  \<open>facebook\<close> when the key is absent (\<open>None\<close>).
\<close>

record GenerateRequest =
  g_vehicleId :: string
  g_platform :: "string option"

definition generate_listing ::
  "string \<Rightarrow> int \<Rightarrow> GenerateRequest \<Rightarrow> MemStorage \<Rightarrow> response \<times> MemStorage" where
  "generate_listing uid now reqBody s =
     (let vehicleId = g_vehicleId reqBody;
          platform = (case g_platform reqBody of None \<Rightarrow> ''facebook'' | Some p \<Rightarrow> p)
      in case getVehicle vehicleId s of
           None \<Rightarrow> (\<lparr> status = 404, payload = Message ''Vehicle not found'' \<rparr>, s)
         | Some vehicle \<Rightarrow>
             (let listingData = generateListingContent vehicle platform;
                  (listing, s') =
                    createListing uid now \<lparr>
                      il_vehicleId = Val vehicleId,
                      il_title = lc_title listingData,
                      il_platform = platform,
                      il_status = Val ''draft'',
                      il_listingData = Val (contentJson listingData) \<rparr> s
              in (\<lparr> status = 200, payload = ListingBody listing \<rparr>, s')))"

section \<open>Specification-side definitions\<close>

text \<open>
  The plain merge the specification describes for \<open>update\<close>: the given fields over the
  existing record, \<open>updatedAt\<close> refreshed. These follow the specification's words and are
  compared with \<open>updateVehicle\<close> and \<open>updateListing\<close> below.
\<close>

definition mergeVehicle :: "Vehicle \<Rightarrow> PartialVehicle \<Rightarrow> int \<Rightarrow> Vehicle" where
  "mergeVehicle existing updateData now = \<lparr>
     v_id = v_id existing,
     v_vin = spreadOpt (v_vin existing) (pv_vin updateData),
     v_year = spreadReq (v_year existing) (pv_year updateData),
     v_make = spreadReq (v_make existing) (pv_make updateData),
     v_model = spreadReq (v_model existing) (pv_model updateData),
     v_trim = spreadOpt (v_trim existing) (pv_trim updateData),
     v_mileage = spreadReq (v_mileage existing) (pv_mileage updateData),
     v_transmission = spreadReq (v_transmission existing) (pv_transmission updateData),
     v_fuelType = spreadReq (v_fuelType existing) (pv_fuelType updateData),
     v_condition = spreadReq (v_condition existing) (pv_condition updateData),
     v_price = spreadReq (v_price existing) (pv_price updateData),
     v_location = spreadReq (v_location existing) (pv_location updateData),
     v_description = spreadReq (v_description existing) (pv_description updateData),
     v_features = spreadOpt (v_features existing) (pv_features updateData),
     v_images = spreadOpt (v_images existing) (pv_images updateData),
     v_aiExtractedData = spreadOpt (v_aiExtractedData existing) (pv_aiExtractedData updateData),
     v_createdAt = v_createdAt existing,
     v_updatedAt = now \<rparr>"

definition mergeListing :: "Listing \<Rightarrow> PartialListing \<Rightarrow> int \<Rightarrow> Listing" where
  "mergeListing existing updateData now = \<lparr>
     l_id = l_id existing,
     l_vehicleId = spreadOpt (l_vehicleId existing) (pl_vehicleId updateData),
     l_title = spreadReq (l_title existing) (pl_title updateData),
     l_platform = spreadReq (l_platform existing) (pl_platform updateData),
     l_status = spreadReq (l_status existing) (pl_status updateData),
     l_listingData = spreadOpt (l_listingData existing) (pl_listingData updateData),
     l_createdAt = l_createdAt existing,
     l_updatedAt = now \<rparr>"

text \<open>Every field whose key is absent from the partial has its prior value.\<close>

definition keepsAbsentVehicleFields :: "Vehicle \<Rightarrow> PartialVehicle \<Rightarrow> Vehicle \<Rightarrow> bool" where
  "keepsAbsentVehicleFields existing updateData updated \<longleftrightarrow>
     v_id updated = v_id existing \<and>
     v_createdAt updated = v_createdAt existing \<and>
     (pv_vin updateData = Undefined \<longrightarrow> v_vin updated = v_vin existing) \<and>
     (pv_year updateData = None \<longrightarrow> v_year updated = v_year existing) \<and>
     (pv_make updateData = None \<longrightarrow> v_make updated = v_make existing) \<and>
     (pv_model updateData = None \<longrightarrow> v_model updated = v_model existing) \<and>
     (pv_trim updateData = Undefined \<longrightarrow> v_trim updated = v_trim existing) \<and>
     (pv_mileage updateData = None \<longrightarrow> v_mileage updated = v_mileage existing) \<and>
     (pv_transmission updateData = None \<longrightarrow> v_transmission updated = v_transmission existing) \<and>
     (pv_fuelType updateData = None \<longrightarrow> v_fuelType updated = v_fuelType existing) \<and>
     (pv_condition updateData = None \<longrightarrow> v_condition updated = v_condition existing) \<and>
     (pv_price updateData = None \<longrightarrow> v_price updated = v_price existing) \<and>
     (pv_location updateData = None \<longrightarrow> v_location updated = v_location existing) \<and>
     (pv_description updateData = None \<longrightarrow> v_description updated = v_description existing) \<and>
     (pv_features updateData = Undefined \<longrightarrow> v_features updated = v_features existing) \<and>
     (pv_images updateData = Undefined \<longrightarrow> v_images updated = v_images existing) \<and>
     (pv_aiExtractedData updateData = Undefined \<longrightarrow>
        v_aiExtractedData updated = v_aiExtractedData existing)"

definition keepsAbsentListingFields :: "Listing \<Rightarrow> PartialListing \<Rightarrow> Listing \<Rightarrow> bool" where
  "keepsAbsentListingFields existing updateData updated \<longleftrightarrow>
     l_id updated = l_id existing \<and>
     l_createdAt updated = l_createdAt existing \<and>
     (pl_vehicleId updateData = Undefined \<longrightarrow> l_vehicleId updated = l_vehicleId existing) \<and>
     (pl_title updateData = None \<longrightarrow> l_title updated = l_title existing) \<and>
     (pl_platform updateData = None \<longrightarrow> l_platform updated = l_platform existing) \<and>
     (pl_status updateData = None \<longrightarrow> l_status updated = l_status existing) \<and>
     (pl_listingData updateData = Undefined \<longrightarrow> l_listingData updated = l_listingData existing)"

text \<open>
  The merge as \<open>updateVehicle\<close> performs it: a \<open>features\<close> or \<open>images\<close> key given as
  \<open>null\<close> leaves the prior list.
\<close>

definition mergeVehicleKeepingLists :: "Vehicle \<Rightarrow> PartialVehicle \<Rightarrow> int \<Rightarrow> Vehicle" where
  "mergeVehicleKeepingLists existing updateData now =
     (mergeVehicle existing updateData now)\<lparr>
        v_features := (if pv_features updateData = Null then v_features existing
                       else v_features (mergeVehicle existing updateData now)),
        v_images := (if pv_images updateData = Null then v_images existing
                     else v_images (mergeVehicle existing updateData now)) \<rparr>"

text \<open>
  Thousands separation as the specification words it: the decimal digits cut into groups of
  three from the right.
\<close>

function thousandsGroups :: "string \<Rightarrow> string list" where
  "thousandsGroups ds =
     (if length ds \<le> 3 then [ds]
      else thousandsGroups (take (length ds - 3) ds) @ [drop (length ds - 3) ds])"
  by pat_completeness auto
termination
  by (relation "measure length") auto

declare thousandsGroups.simps [simp del]

text \<open>
  The title as the specification words it: year, make and model separated by single spaces,
  a space and the trim when a (non-empty) trim is there, then \<open> - $\<close> and the price with
  thousands separators.
\<close>

definition titleOf :: "Vehicle \<Rightarrow> string" where
  "titleOf v =
     showInt (v_year v) @ '' '' @ v_make v @ '' '' @ v_model v @
     (case v_trim v of Val t \<Rightarrow> (if t = [] then [] else '' '' @ t) | _ \<Rightarrow> []) @
     '' - $'' @
     (if v_price v < 0 then ''-'' else []) @
     join '','' (thousandsGroups (showNat (nat \<bar>v_price v\<bar>)))"



text \<open>
  Of an uploaded file with what it meets: that its analysis throws; that it is an image of
  the \<open>images\<close> field with an allowed type (JPEG, PNG or WEBP, in any case of letters) and
  of at most 10 MiB; that it is written to disk.
\<close>

definition inferenceFails :: "jsonParser \<Rightarrow> UploadedFile \<times> FileEnv \<Rightarrow> bool" where
  "inferenceFails JSON_parse fe =
     isl (analyzeVehicleImage JSON_parse (env_ollama (snd fe)) (base64 (f_buffer (fst fe))))"

definition validFile :: "UploadedFile \<times> FileEnv \<Rightarrow> bool" where
  "validFile fe \<longleftrightarrow>
     f_fieldname (fst fe) = ''images'' \<and>
     toLowerCase (f_mimetype (fst fe)) \<in>
       {''image/jpeg'', ''image/jpg'', ''image/png'', ''image/webp''} \<and>
     f_size (fst fe) \<le> 10485760"

definition written :: "UploadedFile \<times> FileEnv \<Rightarrow> bool" where
  "written fe \<longleftrightarrow> env_writeError (snd fe) = None"









section \<open>Example data\<close>

definition fullInsert :: InsertVehicle where
  "fullInsert = \<lparr>
     iv_vin = Val ''1HGCM82633A004352'', iv_year = 2021, iv_make = ''Toyota'',
     iv_model = ''Corolla'', iv_trim = Val ''LE'', iv_mileage = 30500,
     iv_transmission = ''cvt'', iv_fuelType = ''hybrid'', iv_condition = ''excellent'',
     iv_price = 21900, iv_location = ''Reno, NV'', iv_description = ''Garage kept, one owner.'',
     iv_features = Val [''Sunroof'', ''Heated seats''],
     iv_images = Val [''/uploads/vehicles/a.png''],
     iv_aiExtractedData = Null \<rparr>"

definition exampleInsert :: InsertVehicle where
  "exampleInsert = \<lparr>
     iv_vin = Undefined, iv_year = 2020, iv_make = ''Honda'', iv_model = ''Civic'',
     iv_trim = Val [], iv_mileage = 42000, iv_transmission = ''automatic'',
     iv_fuelType = ''gasoline'', iv_condition = ''good'', iv_price = 18500,
     iv_location = ''Austin, TX'', iv_description = ''One owner, clean title.'',
     iv_features = Undefined, iv_images = Undefined, iv_aiExtractedData = Undefined \<rparr>"

definition exampleVehicle :: Vehicle where
  "exampleVehicle = \<lparr>
     v_id = ''v1'', v_vin = Undefined, v_year = 2020, v_make = ''Honda'', v_model = ''Civic'',
     v_trim = Val ''EX'', v_mileage = 42000, v_transmission = ''automatic'',
     v_fuelType = ''gasoline'', v_condition = ''good'', v_price = 18500,
     v_location = ''Austin, TX'', v_description = ''One owner, clean title.'',
     v_features = Val [''Sunroof''], v_images = Val [], v_aiExtractedData = Undefined,
     v_createdAt = 1000, v_updatedAt = 1000 \<rparr>"

definition exampleListing :: Listing where
  "exampleListing = \<lparr>
     l_id = ''l1'', l_vehicleId = Val ''v1'', l_title = ''2020 Honda Civic EX - $18,500'',
     l_platform = ''facebook'', l_status = ''draft'', l_listingData = Undefined,
     l_createdAt = 1500, l_updatedAt = 1500 \<rparr>"

definition exampleStore :: MemStorage where
  "exampleStore = \<lparr>
     vehicles = [(''v1'', exampleVehicle)],
     listings = [(''l1'', exampleListing)],
     aiExtractions = [] \<rparr>"

definition emptyPartial :: PartialVehicle where
  "emptyPartial = \<lparr>
     pv_vin = Undefined, pv_year = None, pv_make = None, pv_model = None, pv_trim = Undefined,
     pv_mileage = None, pv_transmission = None, pv_fuelType = None, pv_condition = None,
     pv_price = None, pv_location = None, pv_description = None, pv_features = Undefined,
     pv_images = Undefined, pv_aiExtractedData = Undefined \<rparr>"

definition nullFeaturesUpdate :: PartialVehicle where
  "nullFeaturesUpdate = emptyPartial\<lparr> pv_features := Null \<rparr>"

definition priceUpdate :: PartialVehicle where
  "priceUpdate = emptyPartial\<lparr> pv_price := Some 17900 \<rparr>"

definition statusUpdate :: PartialListing where
  "statusUpdate = \<lparr> pl_vehicleId = Undefined, pl_title = None, pl_platform = None,
     pl_status = Some ''published'', pl_listingData = Undefined \<rparr>"

definition emptyMakeProps :: "(string \<times> jsval) list" where
  "emptyMakeProps = [
     (''year'', JNum 2020), (''make'', JStr []), (''model'', JStr ''Civic''),
     (''mileage'', JNum 42000), (''transmission'', JStr ''automatic''),
     (''fuelType'', JStr ''gasoline''), (''condition'', JStr ''good''), (''price'', JNum 18500),
     (''location'', JStr ''Austin, TX''), (''description'', JStr ''One owner, clean title.'')]"

text \<open>A parser that knows one JSON text, \<open>{"make":"Honda"}\<close>.\<close>

definition hondaJson :: string where
  "hondaJson =
     [CHR ''{'', CHR 0x22] @ ''make'' @ [CHR 0x22, CHR '':'', CHR 0x22] @ ''Honda'' @
     [CHR 0x22, CHR ''}'']"

definition exampleParse :: jsonParser where
  "exampleParse span = (if span = hondaJson then Some [(''make'', JStr ''Honda'')] else None)"


definition pngFile :: UploadedFile where
  "pngFile = \<lparr> f_fieldname = ''images'', f_originalname = ''front.png'',
     f_mimetype = ''image/png'', f_size = 3, f_buffer = [77, 97, 110] \<rparr>"

definition answering :: "string \<Rightarrow> string \<Rightarrow> FileEnv" where
  "answering uid response = \<lparr> env_uuid = uid, env_writeError = None,
     env_ollama = OllamaResponse 200 ''OK'' (BodyText response) \<rparr>"

definition unreachable :: "string \<Rightarrow> FileEnv" where
  "unreachable uid = \<lparr> env_uuid = uid, env_writeError = None,
     env_ollama = OllamaRejects ''fetch failed'' \<rparr>"

definition diskFull :: "string \<Rightarrow> FileEnv" where
  "diskFull uid = \<lparr> env_uuid = uid, env_writeError = Some ''ENOSPC: no space left on device'',
     env_ollama = OllamaResponse 200 ''OK'' (BodyText ''a red car'') \<rparr>"

definition elevenFiles :: "(UploadedFile \<times> FileEnv) list" where
  "elevenFiles = replicate 11 (pngFile, answering ''u1'' ''a red car'')"

definition threeFiles :: "(UploadedFile \<times> FileEnv) list" where
  "threeFiles = [
     (pngFile, answering ''u1'' ''a red car''),
     (pngFile, unreachable ''u2''),
     (pngFile, answering ''u3'' ''damage: dent'')]"

section \<open>Properties of the VIN lookup\<close>

lemma vinChar_iff: "vinChar c \<longleftrightarrow> c \<in> set ''ABCDEFGHJKLMNPRSTUVWXYZ0123456789''"
proof -
  have inj: "\<And>d. c = d \<longleftrightarrow> (of_char c :: nat) = of_char d"
    by auto
  show ?thesis
    unfolding vinChar_def code_def
    apply (simp add: inj)
    by presburger
qed

lemma isValidVin_iff:
  "isValidVin vin \<longleftrightarrow>
     length vin = 17 \<and> set vin \<subseteq> set ''ABCDEFGHJKLMNPRSTUVWXYZ0123456789''"
proof -
  define A where "A = set ''ABCDEFGHJKLMNPRSTUVWXYZ0123456789''"
  have "list_all vinChar vin \<longleftrightarrow> set vin \<subseteq> A"
    unfolding list_all_iff A_def using vinChar_iff by blast
  then show ?thesis
    unfolding isValidVin_def A_def [symmetric] by simp
qed

text \<open>A string that is not of the shape is answered at once, with no outbound call.\<close>

lemma lookupVin_invalid_shape:
  "\<not> isValidVin vin \<Longrightarrow>
   lookupVin apiKey baseUrl vin outcome =
     (failure ''Invalid VIN format. VIN must be 17 characters.'', [])"
  by (simp add: lookupVin_def)

text \<open>
  A string of 17 upper-case characters of the alphabet leads to exactly one outbound call,
  the registry request, whatever the registry answers and whether or not an API key is set.
\<close>

lemma lookupVin_valid_shape:
  "isValidVin vin \<Longrightarrow>
   snd (lookupVin apiKey baseUrl vin outcome) =
     [baseUrl @ ''/vehicles/DecodeVinValues/'' @ vin @ ''?format=json'']"
  by (simp add: lookupVin_def lookupWithNHTSA_def lookupWithCommercialAPI_def Let_def
      split: fetchOutcome.splits jsonOutcome.splits option.splits)

text \<open>
  C1. The claim takes the alphabet case-insensitively, as the client's \<open>validateVin\<close>
  does. The server's \<open>isValidVin\<close> has no \<open>i\<close> flag: a VIN in small letters, 17
  characters long and accepted by the client's check, is answered with the format error and
  no registry call is made.
\<close>

theorem lookupVin_rejects_small_letters:
  "length ''1hgcm82633a004352'' = 17 \<and>
   validateVin ''1hgcm82633a004352'' = (True, Undefined) \<and>
   \<not> isValidVin ''1hgcm82633a004352'' \<and>
   lookupVin apiKey baseUrl ''1hgcm82633a004352'' outcome =
     (failure ''Invalid VIN format. VIN must be 17 characters.'', [])"
proof -
  have a: "validateVin ''1hgcm82633a004352'' = (True, Undefined)"
    by (simp add: validateVin_def vinChar_def code_def canonicalize_def isLower_def)
  have b: "\<not> isValidVin ''1hgcm82633a004352''"
    by (simp add: isValidVin_def vinChar_def code_def)
  show ?thesis
    using a b by (simp add: lookupVin_def)
qed

subsection \<open>Fuel types\<close>

lemma mapFuelType_missing:
  "mapFuelType Undefined = FuelUndefined"
  "mapFuelType Null = FuelUndefined"
  "mapFuelType (Val []) = FuelUndefined"
  by (simp_all add: mapFuelType_def)

text \<open>A string whose lower-case form is a key of the table gets the table's value.\<close>

lemma mapFuelType_table:
  assumes "map_of mappings (toLowerCase s) = Some v"
  shows "mapFuelType (Val s) = FuelString v"
proof -
  have "map_of mappings [] = None"
    by (simp add: mappings_def)
  with assms have "s \<noteq> []"
    by (auto simp: toLowerCase_def)
  with assms show ?thesis
    by (simp add: mapFuelType_def)
qed

lemma mappings_entries:
  "map_of mappings k = Some v \<longleftrightarrow>
     (k, v) \<in> {(''gasoline'', ''gasoline''), (''gas'', ''gasoline''), (''electric'', ''electric''),
       (''hybrid'', ''hybrid''), (''diesel'', ''diesel''), (''flex fuel'', ''gasoline''),
       (''e85'', ''gasoline'')}"
  unfolding mappings_def by (simp del: One_nat_def) blast

text \<open>
  Any other non-empty string gives \<open>gasoline\<close>, unless its lower-case form names a
  property that the table object inherits.
\<close>

lemma mapFuelType_default:
  assumes "s \<noteq> []" and "map_of mappings (toLowerCase s) = None"
    and "toLowerCase s \<notin> set objectPrototypeKeys"
  shows "mapFuelType (Val s) = FuelString ''gasoline''"
  using assms by (simp add: mapFuelType_def)

text \<open>
  C2. The claim gives \<open>gasoline\<close> for every string that is not in the table. For the
  string \<open>constructor\<close>, which is not a key of the table, the lookup finds the inherited
  property and \<open>mapFuelType\<close> returns that value, not a fuel type.
\<close>

theorem mapFuelType_inherited_key:
  "map_of mappings (toLowerCase ''constructor'') = None \<and>
   mapFuelType (Val ''constructor'') = FuelInherited ''constructor'' \<and>
   mapFuelType (Val ''constructor'') \<noteq> FuelString ''gasoline''"
proof -
  have a: "map_of mappings (toLowerCase ''constructor'') = None"
    by (simp add: mappings_def toLowerCase_def lowerChar_def isUpper_def code_def)
  have b: "mapFuelType (Val ''constructor'') = FuelInherited ''constructor''"
    by (simp add: mapFuelType_def mappings_def objectPrototypeKeys_def toLowerCase_def
        lowerChar_def isUpper_def code_def)
  show ?thesis
    using a b by simp
qed

section \<open>Properties of the image analysis\<close>

subsection \<open>The result object and the brace search\<close>







lemma dropWhile_Cons_head:
  assumes "dropWhile P xs = x # rest"
  shows "\<not> P x"
proof -
  from assms have "dropWhile P xs \<noteq> []" by simp
  then have "\<not> P (hd (dropWhile P xs))" by (rule hd_dropWhile)
  with assms show ?thesis by simp
qed

lemma jsonMatch_eq:
  "jsonMatch text = Some span \<longleftrightarrow>
     (\<exists>inner. dropWhile (\<lambda>c. c \<noteq> CHR ''{'') text = CHR ''{'' # inner \<and> CHR ''}'' \<in> set inner \<and>
        span = CHR ''{'' # rev (dropWhile (\<lambda>d. d \<noteq> CHR ''}'') (rev inner)))"
proof (cases "dropWhile (\<lambda>c. c \<noteq> CHR ''{'') text")
  case Nil
  show ?thesis unfolding jsonMatch_def Nil by simp
next
  case (Cons x inner)
  then have "\<not> x \<noteq> CHR ''{''" by (rule dropWhile_Cons_head)
  then have x: "x = CHR ''{''" by simp
  show ?thesis
    unfolding jsonMatch_def Cons x by auto
qed

lemma jsonMatch_none_iff:
  "jsonMatch text = None \<longleftrightarrow> \<not> (\<exists>a b c. text = a @ CHR ''{'' # b @ CHR ''}'' # c)"
proof
  assume n: "jsonMatch text = None"
  show "\<not> (\<exists>a b c. text = a @ CHR ''{'' # b @ CHR ''}'' # c)"
  proof
    assume "\<exists>a b c. text = a @ CHR ''{'' # b @ CHR ''}'' # c"
    then obtain a b c where t: "text = a @ CHR ''{'' # b @ CHR ''}'' # c" by blast
    show False
    proof (cases "\<forall>x \<in> set a. x \<noteq> CHR ''{''")
      case True
      then have "dropWhile (\<lambda>c. c \<noteq> CHR ''{'') text = CHR ''{'' # b @ CHR ''}'' # c"
        unfolding t by (simp add: dropWhile_append)
      then have "jsonMatch text \<noteq> None"
        by (simp add: jsonMatch_def)
      with n show False by simp
    next
      case False
      then have d: "dropWhile (\<lambda>c. c \<noteq> CHR ''{'') text =
          dropWhile (\<lambda>c. c \<noteq> CHR ''{'') a @ CHR ''{'' # b @ CHR ''}'' # c"
        unfolding t by (simp add: dropWhile_append)
      from False have "dropWhile (\<lambda>c. c \<noteq> CHR ''{'') a \<noteq> []"
        by (simp add: dropWhile_eq_Nil_conv)
      then obtain x xs where e: "dropWhile (\<lambda>c. c \<noteq> CHR ''{'') a = x # xs"
        by (cases "dropWhile (\<lambda>c. c \<noteq> CHR ''{'') a") auto
      have "jsonMatch text \<noteq> None"
        by (simp add: jsonMatch_def d e)
      with n show False by simp
    qed
  qed
next
  assume r: "\<not> (\<exists>a b c. text = a @ CHR ''{'' # b @ CHR ''}'' # c)"
  show "jsonMatch text = None"
  proof (rule ccontr)
    assume "jsonMatch text \<noteq> None"
    then obtain span where "jsonMatch text = Some span" by blast
    then obtain inner where d: "dropWhile (\<lambda>c. c \<noteq> CHR ''{'') text = CHR ''{'' # inner"
      and i: "CHR ''}'' \<in> set inner"
      unfolding jsonMatch_eq by blast
    from i obtain b c where bc: "inner = b @ CHR ''}'' # c"
      by (auto dest: split_list)
    have "text = takeWhile (\<lambda>c. c \<noteq> CHR ''{'') text @ dropWhile (\<lambda>c. c \<noteq> CHR ''{'') text"
      by simp
    then have "text = takeWhile (\<lambda>c. c \<noteq> CHR ''{'') text @ CHR ''{'' # b @ CHR ''}'' # c"
      unfolding d bc .
    with r show False by blast
  qed
qed



subsection \<open>The labelled patterns of the fallback\<close>




















subsection \<open>Examples of labelled texts\<close>













subsection \<open>The confidence policy\<close>




section \<open>Properties of the image upload\<close>

lemma validFile_validate:
  assumes "validFile fe"
  shows "validateImageFile (f_mimetype (fst fe)) (f_size (fst fe)) = Inr ()"
  using assms
  by (simp add: validFile_def validateImageFile_def allowedTypes_def maxSize_def)

lemma validFile_multer:
  assumes "validFile (upl, env)"
  shows "f_fieldname upl = ''images''" and "fileFilter upl = Inr ()"
    and "\<not> f_size upl > fileSizeLimit"
  using assms
  by (simp_all add: validFile_def fileFilter_def allowedTypes_def fileSizeLimit_def)

lemma uploadArray_valid:
  assumes "list_all validFile parts" and "length parts \<le> filesLeft"
  shows "uploadArray ''images'' filesLeft parts = Inr parts"
  using assms
proof (induction parts arbitrary: filesLeft)
  case Nil
  then show ?case by simp
next
  case (Cons fe parts)
  obtain upl env where fe: "fe = (upl, env)" by (cases fe)
  from Cons.prems have v: "validFile (upl, env)" and rest: "list_all validFile parts"
    by (simp_all add: fe)
  from Cons.prems have n: "filesLeft \<noteq> 0" and l: "length parts \<le> filesLeft - 1"
    by simp_all
  have "uploadArray ''images'' (filesLeft - 1) parts = Inr parts"
    using rest l by (rule Cons.IH)
  then show ?case
    using n validFile_multer [OF v] by (simp add: fe)
qed

lemma uploadArray_too_many:
  assumes "list_all validFile parts" and "filesLeft < length parts"
  shows "uploadArray ''images'' filesLeft parts = Inl ''Unexpected field''"
  using assms
proof (induction parts arbitrary: filesLeft)
  case Nil
  then show ?case by simp
next
  case (Cons fe parts)
  obtain upl env where fe: "fe = (upl, env)" by (cases fe)
  from Cons.prems have v: "validFile (upl, env)" and rest: "list_all validFile parts"
    by (simp_all add: fe)
  show ?case
  proof (cases "filesLeft = 0")
    case True
    then show ?thesis by (simp add: fe)
  next
    case False
    with Cons.prems have "filesLeft - 1 < length parts" by simp
    with rest have "uploadArray ''images'' (filesLeft - 1) parts = Inl ''Unexpected field''"
      by (rule Cons.IH)
    then show ?thesis
      using False validFile_multer [OF v] by (simp add: fe)
  qed
qed

lemma processFiles_accepted:
  assumes "list_all validFile files" and "list_all written files"
  shows "\<exists>imgs exts. processFiles JSON_parse files processedImages extractions =
            Inr (processedImages @ imgs, extractions @ exts) \<and>
          length imgs = length files \<and>
          length exts = length (filter (\<lambda>fe. \<not> inferenceFails JSON_parse fe) files)"
  using assms
proof (induction files arbitrary: processedImages extractions)
  case Nil
  then show ?case by simp
next
  case (Cons fe files)
  obtain upl env where fe: "fe = (upl, env)" by (cases fe)
  from Cons.prems have hd: "validFile fe" "written fe"
    and rest: "list_all validFile files" "list_all written files"
    by simp_all
  from hd(1) have v: "validateImageFile (f_mimetype upl) (f_size upl) = Inr ()"
    using validFile_validate [of fe] by (simp add: fe)
  from hd(2) have w: "env_writeError env = None"
    by (simp add: fe written_def)
  obtain img where p: "processUploadedImage (env_uuid env) (env_writeError env) (f_buffer upl)
      (f_originalname upl) (f_mimetype upl) = Inr img" and b: "pi_base64 img = base64 (f_buffer upl)"
    by (simp add: processUploadedImage_def w Let_def)
  show ?case
  proof (cases "analyzeVehicleImage JSON_parse (env_ollama env) (base64 (f_buffer upl))")
    case (Inl err)
    then have f: "inferenceFails JSON_parse fe" by (simp add: inferenceFails_def fe)
    from Cons.IH [OF rest, of "processedImages @ [img]" extractions]
    obtain imgs exts where
      "processFiles JSON_parse files (processedImages @ [img]) extractions =
         Inr ((processedImages @ [img]) @ imgs, extractions @ exts)"
      "length imgs = length files"
      "length exts = length (filter (\<lambda>fe. \<not> inferenceFails JSON_parse fe) files)"
      by blast
    then have "processFiles JSON_parse (fe # files) processedImages extractions =
         Inr (processedImages @ (img # imgs), extractions @ exts) \<and>
       length (img # imgs) = length (fe # files) \<and>
       length exts = length (filter (\<lambda>fe. \<not> inferenceFails JSON_parse fe) (fe # files))"
      using Inl f by (simp add: fe v p b)
    then show ?thesis by blast
  next
    case (Inr aiResult)
    then have f: "\<not> inferenceFails JSON_parse fe" by (simp add: inferenceFails_def fe)
    let ?e = "\<lparr> ue_imageUrl = pi_url img,
                 ue_extractedText = map_of aiResult ''extractedText'',
                 ue_confidence = map_of aiResult ''confidence'',
                 ue_extractedData = aiResult \<rparr>"
    from Cons.IH [OF rest, of "processedImages @ [img]" "extractions @ [?e]"]
    obtain imgs exts where
      "processFiles JSON_parse files (processedImages @ [img]) (extractions @ [?e]) =
         Inr ((processedImages @ [img]) @ imgs, (extractions @ [?e]) @ exts)"
      "length imgs = length files"
      "length exts = length (filter (\<lambda>fe. \<not> inferenceFails JSON_parse fe) files)"
      by blast
    then have "processFiles JSON_parse (fe # files) processedImages extractions =
         Inr (processedImages @ (img # imgs), extractions @ (?e # exts)) \<and>
       length (img # imgs) = length (fe # files) \<and>
       length (?e # exts) = length (filter (\<lambda>fe. \<not> inferenceFails JSON_parse fe) (fe # files))"
      using Inr f by (simp add: fe v p b)
    then show ?thesis by blast
  qed
qed

lemma length_filter_not:
  "length (filter (\<lambda>x. \<not> P x) xs) = length xs - length (filter P xs)"
  using sum_length_filter_compl [of P xs] by linarith

lemma pngFile_valid: "validFile (pngFile, env)"
  by (simp add: validFile_def pngFile_def toLowerCase_def lowerChar_def isUpper_def code_def)

text \<open>
  C4 as stated fails on an empty batch, which the handler answers with 400; on a batch in
  which an image cannot be written to disk, which it also answers with 400 although no
  inference failed; and on a batch of eleven valid images, which the upload middleware
  \<open>upload.array("images", 10)\<close> refuses before the handler runs, so that the answer is 500.
\<close>

theorem upload_batch_counterexample:
  "post_images_upload exampleParse [] =
     \<lparr> status = 400, payload = Message ''No images uploaded'' \<rparr> \<and>
   validFile (pngFile, diskFull ''u1'') \<and>
   \<not> inferenceFails exampleParse (pngFile, diskFull ''u1'') \<and>
   post_images_upload exampleParse [(pngFile, diskFull ''u1'')] =
     \<lparr> status = 400, payload = Message ''ENOSPC: no space left on device'' \<rparr> \<and>
   length elevenFiles = 11 \<and>
   list_all validFile elevenFiles \<and>
   list_all written elevenFiles \<and>
   filter (inferenceFails exampleParse) elevenFiles = [] \<and>
   post_images_upload exampleParse elevenFiles =
     \<lparr> status = 500, payload = ErrorPage ''Unexpected field'' \<rparr>"
proof -
  have v: "validFile (pngFile, diskFull ''u1'')"
    by (rule pngFile_valid)
  have i: "\<not> inferenceFails exampleParse (pngFile, diskFull ''u1'')"
    by (simp add: inferenceFails_def diskFull_def analyzeVehicleImage_def)
  have a: "post_images_upload exampleParse [] =
      \<lparr> status = 400, payload = Message ''No images uploaded'' \<rparr>"
    by (simp add: post_images_upload_def upload_images_def)
  have u: "uploadArray ''images'' 10 [(pngFile, diskFull ''u1'')] = Inr [(pngFile, diskFull ''u1'')]"
    using v by (intro uploadArray_valid) simp_all
  have "post_images_upload exampleParse [(pngFile, diskFull ''u1'')] =
      upload_images exampleParse [(pngFile, diskFull ''u1'')]"
    by (simp only: post_images_upload_def u sum.case)
  then have b: "post_images_upload exampleParse [(pngFile, diskFull ''u1'')] =
     \<lparr> status = 400, payload = Message ''ENOSPC: no space left on device'' \<rparr>"
    using validFile_validate [OF v]
    by (simp add: upload_images_def processUploadedImage_def diskFull_def)
  have l: "length elevenFiles = 11"
    by (simp add: elevenFiles_def)
  have ev: "list_all validFile elevenFiles"
    by (simp add: elevenFiles_def list_all_iff pngFile_valid)
  have ew: "list_all written elevenFiles"
    by (simp add: elevenFiles_def list_all_iff written_def answering_def)
  have ef: "filter (inferenceFails exampleParse) elevenFiles = []"
    by (simp add: elevenFiles_def inferenceFails_def answering_def analyzeVehicleImage_def)
  have "uploadArray ''images'' 10 elevenFiles = Inl ''Unexpected field''"
    using ev by (rule uploadArray_too_many) (simp add: l)
  then have c: "post_images_upload exampleParse elevenFiles =
     \<lparr> status = 500, payload = ErrorPage ''Unexpected field'' \<rparr>"
    by (simp add: post_images_upload_def)
  from a v i b l ev ew ef c show ?thesis by blast
qed

text \<open>
  C4, amended. For every non-empty batch of N images, at most ten, that are sent in the
  \<open>images\<close> field, pass the type and size validation and are all written to disk, of which
  k make the inference adapter throw, the upload route answers 200 with N images and N - k
  extractions: no inference failure aborts the batch or changes the status.
\<close>

theorem upload_partial_batch:
  assumes "files \<noteq> []" and "length files \<le> 10"
    and "list_all validFile files" and "list_all written files"
  shows "\<exists>images extractions message.
     post_images_upload JSON_parse files =
       \<lparr> status = 200, payload = UploadBody images extractions message \<rparr> \<and>
     length images = length files \<and>
     length extractions = length files - length (filter (inferenceFails JSON_parse) files)"
proof -
  have u: "uploadArray ''images'' 10 files = Inr files"
    using assms(3,2) by (rule uploadArray_valid)
  from processFiles_accepted [OF assms(3,4), of JSON_parse "[]" "[]"]
  obtain imgs exts where p: "processFiles JSON_parse files [] [] = Inr (imgs, exts)"
    and i: "length imgs = length files"
    and e: "length exts = length (filter (\<lambda>fe. \<not> inferenceFails JSON_parse fe) files)"
    by auto
  from assms(1) have "length files \<noteq> 0" by simp
  then have "post_images_upload JSON_parse files =
      \<lparr> status = 200, payload = UploadBody imgs exts
          (''Successfully uploaded '' @ showNat (length imgs) @ '' images'') \<rparr>"
    by (simp add: post_images_upload_def u upload_images_def p)
  with i e show ?thesis
    unfolding length_filter_not by blast
qed

theorem upload_partial_batch_witness:
  "status (post_images_upload exampleParse threeFiles) = 200 \<and>
   (case payload (post_images_upload exampleParse threeFiles) of
      UploadBody images extractions message \<Rightarrow> length images = 3 \<and> length extractions = 2
    | _ \<Rightarrow> False)"
proof -
  have v: "list_all validFile threeFiles"
    by (simp add: threeFiles_def pngFile_valid)
  have w: "list_all written threeFiles"
    by (simp add: threeFiles_def written_def answering_def unreachable_def)
  have n: "threeFiles \<noteq> []" by (simp add: threeFiles_def)
  have k: "length (filter (inferenceFails exampleParse) threeFiles) = 1"
    by (simp add: threeFiles_def inferenceFails_def analyzeVehicleImage_def answering_def
        unreachable_def)
  have l: "length threeFiles = 3" by (simp add: threeFiles_def)
  then have l10: "length threeFiles \<le> 10" by simp
  from upload_partial_batch [OF n l10 v w, of exampleParse]
  show ?thesis by (auto simp: k l)
qed

section \<open>Properties of the listing text\<close>

subsection \<open>Decimal digits and groups of three\<close>

lemma div10_ge: "1000 \<le> (n::nat) \<Longrightarrow> 10 \<le> n div 10" by linarith
lemma div100_ge: "1000 \<le> (n::nat) \<Longrightarrow> 10 \<le> n div 100" by linarith
lemma div10_div10: "(n::nat) div 10 div 10 = n div 100" by (simp add: div_mult2_eq [symmetric])
lemma div100_div10: "(n::nat) div 100 div 10 = n div 1000" by (simp add: div_mult2_eq [symmetric])
lemma div10_mod10: "(n::nat) div 10 mod 10 = n mod 100 div 10"
  using mod_mult2_eq [of n 10 10] by simp
lemma div100_mod10: "(n::nat) div 100 mod 10 = n mod 1000 div 100"
  using mod_mult2_eq [of n 100 10] by simp
lemma mod1000_div100_less: "(n::nat) mod 1000 div 100 < 10" by (simp add: less_mult_imp_div_less)
lemma mod100_div10_less: "(n::nat) mod 100 div 10 < 10" by (simp add: less_mult_imp_div_less)
lemma small_div10: "(n::nat) < 100 \<Longrightarrow> n div 10 < 10" by linarith
lemma small_div100: "(n::nat) < 1000 \<Longrightarrow> n div 10 div 10 < 10" by linarith
lemma large_div10: "\<not> (n::nat) < 100 \<Longrightarrow> 10 \<le> n div 10" by linarith

lemma showNat_step: "10 \<le> n \<Longrightarrow> showNat n = showNat (n div 10) @ [digit (n mod 10)]"
  by (subst showNat.simps) (simp add: digit_def)

lemma showNat_small: "n < 10 \<Longrightarrow> showNat n = [digit n]"
  by (subst showNat.simps) (simp add: digit_def)

lemma showNat_thousand:
  assumes "1000 \<le> n"
  shows "showNat n =
         showNat (n div 1000) @ [digit (n mod 1000 div 100), digit (n mod 100 div 10), digit (n mod 10)]"
proof -
  have n10: "10 \<le> n" using assms by linarith
  have a: "showNat n = showNat (n div 10) @ [digit (n mod 10)]"
    using n10 by (rule showNat_step)
  have b1: "10 \<le> n div 10" using assms by (rule div10_ge)
  have b2: "n div 10 div 10 = n div 100" by (rule div10_div10)
  have b3: "n div 10 mod 10 = n mod 100 div 10" by (rule div10_mod10)
  have b: "showNat (n div 10) = showNat (n div 100) @ [digit (n mod 100 div 10)]"
    using showNat_step [OF b1] unfolding b2 b3 .
  have c1: "10 \<le> n div 100" using assms by (rule div100_ge)
  have c2: "n div 100 div 10 = n div 1000" by (rule div100_div10)
  have c3: "n div 100 mod 10 = n mod 1000 div 100" by (rule div100_mod10)
  have c: "showNat (n div 100) = showNat (n div 1000) @ [digit (n mod 1000 div 100)]"
    using showNat_step [OF c1] unfolding c2 c3 .
  have "showNat n = (showNat (n div 1000) @ [digit (n mod 1000 div 100)] @
      [digit (n mod 100 div 10)]) @ [digit (n mod 10)]"
    using a b c by (simp only: append_assoc)
  then show ?thesis
    by (simp only: append_assoc append_Cons append_Nil)
qed

lemma showNat_length_small:
  assumes "n < 1000"
  shows "length (showNat n) \<le> 3"
proof (cases "n < 10")
  case True
  then have "showNat n = [digit n]" by (rule showNat_small)
  then show ?thesis by simp
next
  case False
  then have ge10: "10 \<le> n" by linarith
  have a: "showNat n = showNat (n div 10) @ [digit (n mod 10)]"
    using ge10 by (rule showNat_step)
  show ?thesis
  proof (cases "n < 100")
    case True
    then have "n div 10 < 10" by (rule small_div10)
    then have "showNat (n div 10) = [digit (n div 10)]" by (rule showNat_small)
    then have "length (showNat n) = 2" unfolding a by simp
    then show ?thesis by linarith
  next
    case False
    then have b1: "10 \<le> n div 10" by (rule large_div10)
    have b: "showNat (n div 10) = showNat (n div 10 div 10) @ [digit (n div 10 mod 10)]"
      using b1 by (rule showNat_step)
    from assms have "n div 10 div 10 < 10" by (rule small_div100)
    then have "showNat (n div 10 div 10) = [digit (n div 10 div 10)]" by (rule showNat_small)
    then have "length (showNat n) = 3" unfolding a b by simp
    then show ?thesis by linarith
  qed
qed

lemma showNat_nonempty: "showNat n \<noteq> []"
  by (subst showNat.simps) simp

lemma thousandsGroups_nonempty: "thousandsGroups ds \<noteq> []"
  by (subst thousandsGroups.simps) simp

lemma join_snoc: "xs \<noteq> [] \<Longrightarrow> join sep (xs @ [y]) = join sep xs @ sep @ y"
  by (induction sep xs rule: join.induct) auto

lemma groupNat_groups: "groupNat n = join '','' (thousandsGroups (showNat n))"
proof (induction n rule: groupNat.induct)
  case (1 n)
  show ?case
  proof (cases "n < 1000")
    case True
    then have "length (showNat n) \<le> 3" by (rule showNat_length_small)
    then have "thousandsGroups (showNat n) = [showNat n]"
      by (subst thousandsGroups.simps) (simp only: if_True)
    moreover have "groupNat n = showNat n"
      using True by (subst groupNat.simps) (simp only: if_True)
    ultimately show ?thesis
      by (simp only: join.simps)
  next
    case False
    then have ge: "1000 \<le> n" by linarith
    let ?hi = "showNat (n div 1000)"
    let ?lo = "[digit (n mod 1000 div 100), digit (n mod 100 div 10), digit (n mod 10)]"
    have sn: "showNat n = ?hi @ ?lo"
      using ge by (rule showNat_thousand)
    have hi: "?hi \<noteq> []" by (rule showNat_nonempty)
    have tg: "thousandsGroups (?hi @ ?lo) = thousandsGroups ?hi @ [?lo]"
      using hi by (subst thousandsGroups.simps) simp
    have "groupNat n = groupNat (n div 1000) @ '','' @ ?lo"
      using False by (subst groupNat.simps) (simp only: if_False append_Cons append_Nil)
    also have "groupNat (n div 1000) = join '','' (thousandsGroups ?hi)"
      using 1 False by (simp only: not_False_eq_True)
    also have "join '','' (thousandsGroups ?hi) @ '','' @ ?lo = join '','' (thousandsGroups ?hi @ [?lo])"
      by (simp only: join_snoc [OF thousandsGroups_nonempty])
    finally show ?thesis
      unfolding sn tg .
  qed
qed

lemma digit_not_comma: "d < 10 \<Longrightarrow> digit d \<noteq> CHR '',''"
proof
  assume d: "d < 10" and e: "digit d = CHR '',''"
  from e have "(of_char (digit d) :: nat) = of_char (CHR '','')" by simp
  with d show False by (simp add: digit_def)
qed

lemma showNat_digits: "set (showNat n) \<subseteq> digit ` {..<10}"
proof (induction n rule: showNat.induct)
  case (1 n)
  show ?case
  proof (cases "n < 10")
    case True
    then have "showNat n = [digit n]" by (rule showNat_small)
    with True show ?thesis by simp
  next
    case False
    then have "10 \<le> n" by linarith
    then have a: "showNat n = showNat (n div 10) @ [digit (n mod 10)]" by (rule showNat_step)
    have "n mod 10 < 10" by simp
    then have "digit (n mod 10) \<in> digit ` {..<10}" by blast
    moreover have "set (showNat (n div 10)) \<subseteq> digit ` {..<10}"
      using 1 False by blast
    ultimately show ?thesis unfolding a by simp
  qed
qed

lemma showNat_no_comma: "CHR '','' \<notin> set (showNat n)"
proof
  assume "CHR '','' \<in> set (showNat n)"
  with showNat_digits [of n] have "CHR '','' \<in> digit ` {..<10}" by blast
  then obtain d where "d < 10" and "digit d = CHR '',''" by (auto simp: image_iff)
  then show False using digit_not_comma by blast
qed

lemma groupNat_strip: "filter (\<lambda>c. c \<noteq> CHR '','') (groupNat n) = showNat n"
proof (induction n rule: groupNat.induct)
  case (1 n)
  show ?case
  proof (cases "n < 1000")
    case True
    have "filter (\<lambda>c. c \<noteq> CHR '','') (showNat n) = showNat n"
      using showNat_no_comma [of n] by (auto simp: filter_id_conv)
    moreover have "groupNat n = showNat n"
      using True by (subst groupNat.simps) (simp only: if_True)
    ultimately show ?thesis by (simp only:)
  next
    case False
    then have ge: "1000 \<le> n" by linarith
    let ?d2 = "digit (n mod 1000 div 100)" and ?d1 = "digit (n mod 100 div 10)"
      and ?d0 = "digit (n mod 10)"
    have "n mod 1000 div 100 < 10" "n mod 100 div 10 < 10" "n mod 10 < 10"
      by (rule mod1000_div100_less, rule mod100_div10_less, simp)
    then have d: "?d2 \<noteq> CHR '',''" "?d1 \<noteq> CHR '',''" "?d0 \<noteq> CHR '',''"
      by (simp_all only: digit_not_comma not_False_eq_True)
    have g: "groupNat n = groupNat (n div 1000) @ [CHR '','', ?d2, ?d1, ?d0]"
      using False by (subst groupNat.simps) (simp only: if_False)
    have ih: "filter (\<lambda>c. c \<noteq> CHR '','') (groupNat (n div 1000)) = showNat (n div 1000)"
      using 1 False by (simp only: not_False_eq_True)
    have "filter (\<lambda>c. c \<noteq> CHR '','') [CHR '','', ?d2, ?d1, ?d0] = [?d2, ?d1, ?d0]"
      using d by (simp only: filter.simps) (simp only: simp_thms if_True if_False)
    then show ?thesis
      unfolding g showNat_thousand [OF ge] by (simp only: filter_append ih)
  qed
qed

subsection \<open>The generated title\<close>

lemma toLocaleString_groups:
  "toLocaleString i =
     (if i < 0 then CHR ''-'' # join '','' (thousandsGroups (showNat (nat (- i))))
      else join '','' (thousandsGroups (showNat (nat i))))"
  by (simp add: toLocaleString_def groupNat_groups)

lemma toLocaleString_strip:
  "filter (\<lambda>c. c \<noteq> CHR '','') (toLocaleString i) = showInt i"
  by (simp add: toLocaleString_def showInt_def groupNat_strip)

lemma generate_listing_found:
  assumes "getVehicle vid s = Some v"
  shows "generate_listing uid now \<lparr> g_vehicleId = vid, g_platform = platform \<rparr> s =
     (\<lparr> status = 200,
        payload = ListingBody (fst (createListing uid now \<lparr>
          il_vehicleId = Val vid,
          il_title = lc_title (generateListingContent v (case platform of None \<Rightarrow> ''facebook'' | Some p \<Rightarrow> p)),
          il_platform = (case platform of None \<Rightarrow> ''facebook'' | Some p \<Rightarrow> p),
          il_status = Val ''draft'',
          il_listingData = Val (contentJson (generateListingContent v (case platform of None \<Rightarrow> ''facebook'' | Some p \<Rightarrow> p))) \<rparr> s)) \<rparr>,
      snd (createListing uid now \<lparr>
          il_vehicleId = Val vid,
          il_title = lc_title (generateListingContent v (case platform of None \<Rightarrow> ''facebook'' | Some p \<Rightarrow> p)),
          il_platform = (case platform of None \<Rightarrow> ''facebook'' | Some p \<Rightarrow> p),
          il_status = Val ''draft'',
          il_listingData = Val (contentJson (generateListingContent v (case platform of None \<Rightarrow> ''facebook'' | Some p \<Rightarrow> p))) \<rparr> s))"
  using assms by (simp add: generate_listing_def Let_def split: prod.splits)

lemma lc_title_eq: "lc_title (generateListingContent v platform) = titleOf v"
  by (cases "v_trim v")
     (simp_all add: generateListingContent_def titleOf_def Let_def toLocaleString_groups abs_if)

text \<open>
  C5. For every vehicle in the store, \<open>generate-listing\<close> with platform \<open>facebook\<close>
  (given, or by default) answers 200 with a listing that is stored under its id and whose
  title is exactly year, make and model separated by single spaces, a space and the trim
  when the trim is a non-empty string, then \<open> - $\<close> and the price, its decimal digits in
  groups of three separated by commas.
\<close>

theorem generate_listing_title:
  assumes "getVehicle vid s = Some v"
    and "platform = None \<or> platform = Some ''facebook''"
  shows "\<exists>listing s'.
     generate_listing uid now \<lparr> g_vehicleId = vid, g_platform = platform \<rparr> s =
       (\<lparr> status = 200, payload = ListingBody listing \<rparr>, s') \<and>
     getListing uid s' = Some listing \<and>
     l_platform listing = ''facebook'' \<and>
     l_title listing = titleOf v"
  using assms(2) generate_listing_found [OF assms(1), of uid now platform]
  by (auto simp: createListing_def Let_def getListing_def update_conv' lc_title_eq)

theorem generate_listing_title_witness:
  "fst (generate_listing ''l7'' 3000 \<lparr> g_vehicleId = ''v1'', g_platform = Some ''facebook'' \<rparr>
          exampleStore) =
     \<lparr> status = 200, payload = ListingBody
        (the (getListing ''l7'' (snd (generate_listing ''l7'' 3000
            \<lparr> g_vehicleId = ''v1'', g_platform = Some ''facebook'' \<rparr> exampleStore)))) \<rparr> \<and>
   map_option l_title (getListing ''l7'' (snd (generate_listing ''l7'' 3000
       \<lparr> g_vehicleId = ''v1'', g_platform = Some ''facebook'' \<rparr> exampleStore))) =
     Some ''2020 Honda Civic EX - $18,500''"
proof -
  have g: "getVehicle ''v1'' exampleStore = Some exampleVehicle"
    by (simp add: getVehicle_def exampleStore_def)
  have t: "titleOf exampleVehicle = ''2020 Honda Civic EX - $18,500''"
    by (simp add: titleOf_def exampleVehicle_def showInt_def showNat.simps
        thousandsGroups.simps char_of_eq_iff)
  show ?thesis
    using generate_listing_title [OF g, of "Some ''facebook''" "''l7''" 3000]
    by (auto simp: t)
qed

section \<open>Properties of the vehicle routes\<close>

lemma issue_nonempty: "issue name None = [name]"
  by (simp add: issue_def)

lemma parse_empty_make:
  assumes "map_of props ''make'' = Some (JStr [])"
  shows "\<exists>issues. vehicleFormSchema_parse maxYear (JObj props) = Inl issues \<and> ''make'' \<in> set issues"
proof -
  have "stringMin 1 (map_of props ''make'') = None"
    using assms by simp
  then show ?thesis
    by (simp add: vehicleFormSchema_parse_def Let_def issue_nonempty)
qed

lemma post_vehicles_rejected:
  assumes "vehicleFormSchema_parse maxYear reqBody = Inl issues"
  shows "post_vehicles maxYear uid now reqBody s = (\<lparr> status = 400, payload = Issues issues \<rparr>, s)"
  using assms by (simp add: post_vehicles_def)

text \<open>
  C8. When the request body fails the validation of \<open>vehicleFormSchema\<close>,
  \<open>POST /api/vehicles\<close> answers 400 and the store is unchanged, so no vehicle is created;
  a body whose \<open>make\<close> is the empty string is such a body.
\<close>

theorem post_vehicles_invalid_body:
  "(vehicleFormSchema_parse maxYear reqBody = Inl issues \<longrightarrow>
      post_vehicles maxYear uid now reqBody s = (\<lparr> status = 400, payload = Issues issues \<rparr>, s) \<and>
      vehicles (snd (post_vehicles maxYear uid now reqBody s)) = vehicles s) \<and>
   (map_of props ''make'' = Some (JStr []) \<longrightarrow>
      status (fst (post_vehicles maxYear uid now (JObj props) s)) = 400 \<and>
      snd (post_vehicles maxYear uid now (JObj props) s) = s)"
proof (intro conjI impI)
  assume a: "vehicleFormSchema_parse maxYear reqBody = Inl issues"
  then show "post_vehicles maxYear uid now reqBody s = (\<lparr> status = 400, payload = Issues issues \<rparr>, s)"
    by (rule post_vehicles_rejected)
  then show "vehicles (snd (post_vehicles maxYear uid now reqBody s)) = vehicles s"
    by simp
next
  assume "map_of props ''make'' = Some (JStr [])"
  then obtain issues where "vehicleFormSchema_parse maxYear (JObj props) = Inl issues"
    using parse_empty_make by blast
  then have p: "post_vehicles maxYear uid now (JObj props) s =
      (\<lparr> status = 400, payload = Issues issues \<rparr>, s)"
    by (rule post_vehicles_rejected)
  show "status (fst (post_vehicles maxYear uid now (JObj props) s)) = 400"
    by (simp add: p)
  show "snd (post_vehicles maxYear uid now (JObj props) s) = s"
    by (simp add: p)
qed

theorem post_vehicles_invalid_body_witness:
  "post_vehicles 2027 ''u1'' 1000 (JObj emptyMakeProps) exampleStore =
     (\<lparr> status = 400, payload = Issues [''make''] \<rparr>, exampleStore) \<and>
   vehicles (snd (post_vehicles 2027 ''u1'' 1000 (JObj emptyMakeProps) exampleStore)) =
     vehicles exampleStore \<and>
   status (fst (post_vehicles 2027 ''u1'' 1000 (JObj emptyMakeProps) exampleStore)) = 400"
proof -
  have a: "vehicleFormSchema_parse 2027 (JObj emptyMakeProps) = Inl [''make'']"
    by (simp add: vehicleFormSchema_parse_def emptyMakeProps_def Let_def issue_def)
  have b: "map_of emptyMakeProps ''make'' = Some (JStr [])"
    by (simp add: emptyMakeProps_def)
  show ?thesis
    using post_vehicles_invalid_body
      [of 2027 "JObj emptyMakeProps" "[''make'']" "''u1''" 1000 exampleStore emptyMakeProps] a b
    by simp
qed

section \<open>Properties of the record store\<close>

subsection \<open>Sorting with a comparator\<close>

lemma mset_insertCmp: "mset (insertCmp cmp x xs) = add_mset x (mset xs)"
  by (induction xs) auto

lemma mset_sortCmp: "mset (sortCmp cmp xs) = mset xs"
  by (induction xs) (auto simp: mset_insertCmp)

lemma set_insertCmp: "set (insertCmp cmp x xs) = insert x (set xs)"
  by (induction xs) auto

lemma sorted_insertCmp:
  fixes k :: "'a \<Rightarrow> int"
  assumes "sorted_wrt (\<lambda>a b. k b \<le> k a) xs"
  shows "sorted_wrt (\<lambda>a b. k b \<le> k a) (insertCmp (\<lambda>a b. k b - k a) x xs)"
  using assms
proof (induction xs)
  case Nil
  then show ?case by simp
next
  case (Cons y ys)
  show ?case
  proof (cases "k y - k x \<le> 0")
    case True
    with Cons.prems show ?thesis by (auto) 
  next
    case False
    with Cons show ?thesis by (auto simp: set_insertCmp)
  qed
qed

lemma sorted_sortCmp:
  fixes k :: "'a \<Rightarrow> int"
  shows "sorted_wrt (\<lambda>a b. k b \<le> k a) (sortCmp (\<lambda>a b. k b - k a) xs)"
  by (induction xs) (auto intro: sorted_insertCmp)

lemma filter_insertCmp_eq:
  fixes k :: "'a \<Rightarrow> int"
  assumes "sorted_wrt (\<lambda>a b. k b \<le> k a) xs"
  shows "filter (\<lambda>y. k y = t) (insertCmp (\<lambda>a b. k b - k a) x xs) =
         (if k x = t then x # filter (\<lambda>y. k y = t) xs else filter (\<lambda>y. k y = t) xs)"
  using assms
  by (induction xs) (auto  intro!: filter_False[symmetric])

lemma sortCmp_stable:
  fixes k :: "'a \<Rightarrow> int"
  shows "filter (\<lambda>y. k y = t) (sortCmp (\<lambda>a b. k b - k a) xs) = filter (\<lambda>y. k y = t) xs"
  by (induction xs) (auto simp: filter_insertCmp_eq sorted_sortCmp)

subsection \<open>Update\<close>

lemma updateVehicle_absent:
  "getVehicle ident s = None \<Longrightarrow> updateVehicle ident now updateData s = (None, s)"
  by (simp add: updateVehicle_def getVehicle_def)

lemma updateVehicle_present:
  assumes "getVehicle ident s = Some existing"
  shows "updateVehicle ident now updateData s =
           (Some (mergeVehicleKeepingLists existing updateData now),
            s\<lparr> vehicles := AList.update ident (mergeVehicleKeepingLists existing updateData now) (vehicles s) \<rparr>)"
proof -
  define updated where "updated = mergeVehicleKeepingLists existing updateData now"
  note updated_def = updated_def [unfolded mergeVehicleKeepingLists_def]
  have f: "(if truthyArr (pv_features updateData) then pv_features updateData else v_features existing)
           = v_features updated"
    by (cases "pv_features updateData") (simp_all add: updated_def mergeVehicle_def)
  have i: "(if truthyArr (pv_images updateData) then pv_images updateData else v_images existing)
           = v_images updated"
    by (cases "pv_images updateData") (simp_all add: updated_def mergeVehicle_def)
  have "updated = \<lparr>
                 v_id = v_id existing,
                 v_vin = spreadOpt (v_vin existing) (pv_vin updateData),
                 v_year = spreadReq (v_year existing) (pv_year updateData),
                 v_make = spreadReq (v_make existing) (pv_make updateData),
                 v_model = spreadReq (v_model existing) (pv_model updateData),
                 v_trim = spreadOpt (v_trim existing) (pv_trim updateData),
                 v_mileage = spreadReq (v_mileage existing) (pv_mileage updateData),
                 v_transmission = spreadReq (v_transmission existing) (pv_transmission updateData),
                 v_fuelType = spreadReq (v_fuelType existing) (pv_fuelType updateData),
                 v_condition = spreadReq (v_condition existing) (pv_condition updateData),
                 v_price = spreadReq (v_price existing) (pv_price updateData),
                 v_location = spreadReq (v_location existing) (pv_location updateData),
                 v_description = spreadReq (v_description existing) (pv_description updateData),
                 v_features =
                   (if truthyArr (pv_features updateData) then pv_features updateData
                    else v_features existing),
                 v_images =
                   (if truthyArr (pv_images updateData) then pv_images updateData
                    else v_images existing),
                 v_aiExtractedData =
                   spreadOpt (v_aiExtractedData existing) (pv_aiExtractedData updateData),
                 v_createdAt = v_createdAt existing,
                 v_updatedAt = now \<rparr>"
    unfolding f i by (simp add: updated_def mergeVehicle_def)
  with assms(1) show ?thesis
    by (simp add: updateVehicle_def getVehicle_def Let_def mergeVehicleKeepingLists_def updated_def)
qed

lemma keepsAbsent_updated:
  "keepsAbsentVehicleFields existing updateData (mergeVehicleKeepingLists existing updateData now)"
  by (simp add: keepsAbsentVehicleFields_def mergeVehicle_def mergeVehicleKeepingLists_def)

lemma updateListing_absent:
  "getListing ident s = None \<Longrightarrow> updateListing ident now updateData s = (None, s)"
  by (simp add: updateListing_def getListing_def)

lemma updateListing_present:
  "getListing ident s = Some existing \<Longrightarrow>
   updateListing ident now updateData s =
     (Some (mergeListing existing updateData now),
      s\<lparr> listings := AList.update ident (mergeListing existing updateData now) (listings s) \<rparr>)"
  by (simp add: updateListing_def getListing_def mergeListing_def Let_def)

lemma keepsAbsent_mergeListing:
  "keepsAbsentListingFields existing updateData (mergeListing existing updateData now)"
  by (simp add: keepsAbsentListingFields_def mergeListing_def)

subsection \<open>Listing order\<close>

text \<open>
  C6. In every state of the store, \<open>getAllVehicles\<close> and \<open>getAllListings\<close> return all
  the records of their map (the same records with the same multiplicities), ordered by
  descending creation timestamp: of two records in the result, the earlier one was created
  no earlier than the later one.
\<close>

theorem getAll_newest_first:
  "sorted_wrt (\<lambda>a b. v_createdAt b \<le> v_createdAt a) (getAllVehicles s) \<and>
   mset (getAllVehicles s) = mset (map snd (vehicles s)) \<and>
   sorted_wrt (\<lambda>a b. l_createdAt b \<le> l_createdAt a) (getAllListings s) \<and>
   mset (getAllListings s) = mset (map snd (listings s))"
  unfolding getAllVehicles_def getAllListings_def
  by (simp add: sorted_sortCmp mset_sortCmp)

subsection \<open>Delete\<close>

text \<open>
  C9. In every state of the store and for every identifier, \<open>deleteVehicle\<close> leaves the
  listings map and the aiExtractions map as they were; the listings and extractions that
  refer to the deleted vehicle are still returned.
\<close>

theorem deleteVehicle_no_cascade:
  "listings (snd (deleteVehicle ident s)) = listings s \<and>
   aiExtractions (snd (deleteVehicle ident s)) = aiExtractions s \<and>
   getListingsByVehicle ident (snd (deleteVehicle ident s)) = getListingsByVehicle ident s \<and>
   getAiExtractionsByVehicle ident (snd (deleteVehicle ident s)) =
     getAiExtractionsByVehicle ident s"
  by (simp add: deleteVehicle_def getListingsByVehicle_def getAiExtractionsByVehicle_def)

subsection \<open>Create\<close>

text \<open>
  C10. For every insert payload, \<open>createVehicle\<close> changes the store only by putting the
  record it returns under the generated id. The record has the generated id, and its
  \<open>createdAt\<close> and \<open>updatedAt\<close> are the same instant. Every other field is the field of
  the payload, with three defaults: \<open>trim\<close> is the given trim when that is a non-empty
  string, and \<open>null\<close> when it is absent, \<open>null\<close> or the empty string; \<open>features\<close> and
  \<open>images\<close> are the given list when one is given, and the empty list when absent or
  \<open>null\<close>.
\<close>

theorem createVehicle_defaults:
  assumes "createVehicle uid now insertVehicle s = (v, s')"
  shows "s' = s\<lparr> vehicles := AList.update uid v (vehicles s) \<rparr> \<and>
         getVehicle uid s' = Some v \<and>
         v_id v = uid \<and> v_createdAt v = now \<and> v_updatedAt v = now \<and>
         v_createdAt v = v_updatedAt v \<and>
         v_vin v = iv_vin insertVehicle \<and>
         v_year v = iv_year insertVehicle \<and>
         v_make v = iv_make insertVehicle \<and>
         v_model v = iv_model insertVehicle \<and>
         v_mileage v = iv_mileage insertVehicle \<and>
         v_transmission v = iv_transmission insertVehicle \<and>
         v_fuelType v = iv_fuelType insertVehicle \<and>
         v_condition v = iv_condition insertVehicle \<and>
         v_price v = iv_price insertVehicle \<and>
         v_location v = iv_location insertVehicle \<and>
         v_description v = iv_description insertVehicle \<and>
         v_aiExtractedData v = iv_aiExtractedData insertVehicle \<and>
         (\<forall>t. iv_trim insertVehicle = Val t \<and> t \<noteq> [] \<longrightarrow> v_trim v = Val t) \<and>
         (iv_trim insertVehicle = Undefined \<or> iv_trim insertVehicle = Null \<or>
          iv_trim insertVehicle = Val [] \<longrightarrow> v_trim v = Null) \<and>
         (\<forall>xs. iv_features insertVehicle = Val xs \<longrightarrow> v_features v = Val xs) \<and>
         (iv_features insertVehicle = Undefined \<or> iv_features insertVehicle = Null \<longrightarrow>
            v_features v = Val []) \<and>
         (\<forall>xs. iv_images insertVehicle = Val xs \<longrightarrow> v_images v = Val xs) \<and>
         (iv_images insertVehicle = Undefined \<or> iv_images insertVehicle = Null \<longrightarrow>
            v_images v = Val [])"
proof -
  from assms have v: "v = fst (createVehicle uid now insertVehicle s)"
    and s': "s' = snd (createVehicle uid now insertVehicle s)"
    by simp_all
  have st: "s' = s\<lparr> vehicles := AList.update uid v (vehicles s) \<rparr>"
    unfolding v s' by (simp add: createVehicle_def Let_def)
  then have g: "getVehicle uid s' = Some v"
    by (simp add: getVehicle_def update_conv')
  have plain: "v_id v = uid" "v_createdAt v = now" "v_updatedAt v = now"
    "v_vin v = iv_vin insertVehicle" "v_year v = iv_year insertVehicle"
    "v_make v = iv_make insertVehicle" "v_model v = iv_model insertVehicle"
    "v_mileage v = iv_mileage insertVehicle" "v_transmission v = iv_transmission insertVehicle"
    "v_fuelType v = iv_fuelType insertVehicle" "v_condition v = iv_condition insertVehicle"
    "v_price v = iv_price insertVehicle" "v_location v = iv_location insertVehicle"
    "v_description v = iv_description insertVehicle"
    "v_aiExtractedData v = iv_aiExtractedData insertVehicle"
    unfolding v by (simp_all add: createVehicle_def Let_def)
  have t: "v_trim v = (if truthyStr (iv_trim insertVehicle) then iv_trim insertVehicle else Null)"
    and f: "v_features v =
      (if truthyArr (iv_features insertVehicle) then iv_features insertVehicle else Val [])"
    and i: "v_images v =
      (if truthyArr (iv_images insertVehicle) then iv_images insertVehicle else Val [])"
    unfolding v by (simp_all add: createVehicle_def Let_def)
  have t1: "\<forall>t. iv_trim insertVehicle = Val t \<and> t \<noteq> [] \<longrightarrow> v_trim v = Val t"
    by (simp add: t)
  have t2: "iv_trim insertVehicle = Undefined \<or> iv_trim insertVehicle = Null \<or>
          iv_trim insertVehicle = Val [] \<longrightarrow> v_trim v = Null"
    by (auto simp: t)
  have f1: "\<forall>xs. iv_features insertVehicle = Val xs \<longrightarrow> v_features v = Val xs"
    by (simp add: f)
  have f2: "iv_features insertVehicle = Undefined \<or> iv_features insertVehicle = Null \<longrightarrow>
            v_features v = Val []"
    by (auto simp: f)
  have i1: "\<forall>xs. iv_images insertVehicle = Val xs \<longrightarrow> v_images v = Val xs"
    by (simp add: i)
  have i2: "iv_images insertVehicle = Undefined \<or> iv_images insertVehicle = Null \<longrightarrow>
            v_images v = Val []"
    by (auto simp: i)
  from plain have eq: "v_createdAt v = v_updatedAt v" by simp
  show ?thesis
    by (intro conjI) (fact st g plain eq t1 t2 f1 f2 i1 i2)+
qed

theorem createVehicle_defaults_witness:
  "getVehicle ''u1'' (snd (createVehicle ''u1'' 1000 exampleInsert emptyStorage)) =
     Some (fst (createVehicle ''u1'' 1000 exampleInsert emptyStorage)) \<and>
   v_trim (fst (createVehicle ''u1'' 1000 exampleInsert emptyStorage)) = Null \<and>
   v_features (fst (createVehicle ''u1'' 1000 exampleInsert emptyStorage)) = Val [] \<and>
   v_images (fst (createVehicle ''u1'' 1000 exampleInsert emptyStorage)) = Val [] \<and>
   v_make (fst (createVehicle ''u1'' 1000 exampleInsert emptyStorage)) = ''Honda'' \<and>
   v_createdAt (fst (createVehicle ''u1'' 1000 exampleInsert emptyStorage)) = 1000 \<and>
   v_updatedAt (fst (createVehicle ''u1'' 1000 exampleInsert emptyStorage)) = 1000 \<and>
   getVehicle ''u2'' (snd (createVehicle ''u2'' 2000 fullInsert exampleStore)) =
     Some (fst (createVehicle ''u2'' 2000 fullInsert exampleStore)) \<and>
   getVehicle ''v1'' (snd (createVehicle ''u2'' 2000 fullInsert exampleStore)) =
     Some exampleVehicle \<and>
   v_trim (fst (createVehicle ''u2'' 2000 fullInsert exampleStore)) = Val ''LE'' \<and>
   v_features (fst (createVehicle ''u2'' 2000 fullInsert exampleStore)) =
     Val [''Sunroof'', ''Heated seats''] \<and>
   v_images (fst (createVehicle ''u2'' 2000 fullInsert exampleStore)) =
     Val [''/uploads/vehicles/a.png''] \<and>
   v_make (fst (createVehicle ''u2'' 2000 fullInsert exampleStore)) = ''Toyota'' \<and>
   v_price (fst (createVehicle ''u2'' 2000 fullInsert exampleStore)) = 21900"
proof -
  note a = createVehicle_defaults [of "''u1''" 1000 exampleInsert emptyStorage
      "fst (createVehicle ''u1'' 1000 exampleInsert emptyStorage)"
      "snd (createVehicle ''u1'' 1000 exampleInsert emptyStorage)", OF prod.collapse [symmetric]]
  note b = createVehicle_defaults [of "''u2''" 2000 fullInsert exampleStore
      "fst (createVehicle ''u2'' 2000 fullInsert exampleStore)"
      "snd (createVehicle ''u2'' 2000 fullInsert exampleStore)", OF prod.collapse [symmetric]]
  have e: "iv_trim exampleInsert = Val []" "iv_features exampleInsert = Undefined"
    "iv_images exampleInsert = Undefined" "iv_make exampleInsert = ''Honda''"
    by (simp_all add: exampleInsert_def)
  have f: "iv_trim fullInsert = Val ''LE''"
    "iv_features fullInsert = Val [''Sunroof'', ''Heated seats'']"
    "iv_images fullInsert = Val [''/uploads/vehicles/a.png'']" "iv_make fullInsert = ''Toyota''"
    "iv_price fullInsert = 21900"
    by (simp_all add: fullInsert_def)
  show ?thesis
    using a b
    by (simp add: e f getVehicle_def update_conv' exampleStore_def emptyStorage_def)
qed

subsection \<open>Update merges, keeping a list given as null\<close>

text \<open>
  C7 as stated fails: a \<open>features\<close> key given as \<open>null\<close> is a given field, and the plain
  merge would store \<open>null\<close>; \<open>updateVehicle\<close> keeps the prior list.
\<close>

theorem update_plain_merge_counterexample:
  "getVehicle ''v1'' exampleStore = Some exampleVehicle \<and>
   pv_features nullFeaturesUpdate = Null \<and>
   v_features (mergeVehicle exampleVehicle nullFeaturesUpdate 2000) = Null \<and>
   map_option v_features (fst (updateVehicle ''v1'' 2000 nullFeaturesUpdate exampleStore)) =
     Some (Val [''Sunroof'']) \<and>
   fst (updateVehicle ''v1'' 2000 nullFeaturesUpdate exampleStore) \<noteq>
     Some (mergeVehicle exampleVehicle nullFeaturesUpdate 2000)"
  by (simp add: getVehicle_def exampleStore_def exampleVehicle_def nullFeaturesUpdate_def
      emptyPartial_def updateVehicle_def mergeVehicle_def Let_def)

text \<open>
  C7, amended. For an identifier that is not in the store, \<open>updateVehicle\<close> and
  \<open>updateListing\<close> return absent and the store is unchanged. For an existing record, the
  result is the merge of the given fields over the existing record with \<open>updatedAt\<close>
  refreshed, except that \<open>updateVehicle\<close> keeps the prior list where \<open>features\<close> or
  \<open>images\<close> is given as \<open>null\<close>; every field whose key is absent keeps its prior value;
  the result replaces the record in the store and is what a later \<open>get\<close> returns.
\<close>

theorem update_merges_over_existing:
  "(getVehicle ident s = None \<longrightarrow> updateVehicle ident now pv s = (None, s)) \<and>
   (getVehicle ident s = Some existing \<longrightarrow>
      updateVehicle ident now pv s =
        (Some (mergeVehicleKeepingLists existing pv now),
         s\<lparr> vehicles :=
              AList.update ident (mergeVehicleKeepingLists existing pv now) (vehicles s) \<rparr>) \<and>
      getVehicle ident (snd (updateVehicle ident now pv s)) =
        Some (mergeVehicleKeepingLists existing pv now) \<and>
      keepsAbsentVehicleFields existing pv (mergeVehicleKeepingLists existing pv now) \<and>
      v_updatedAt (mergeVehicleKeepingLists existing pv now) = now) \<and>
   (getListing lid s = None \<longrightarrow> updateListing lid now pl s = (None, s)) \<and>
   (getListing lid s = Some existingL \<longrightarrow>
      updateListing lid now pl s =
        (Some (mergeListing existingL pl now),
         s\<lparr> listings := AList.update lid (mergeListing existingL pl now) (listings s) \<rparr>) \<and>
      getListing lid (snd (updateListing lid now pl s)) = Some (mergeListing existingL pl now) \<and>
      keepsAbsentListingFields existingL pl (mergeListing existingL pl now) \<and>
      l_updatedAt (mergeListing existingL pl now) = now)"
proof -
  have v: "getVehicle ident (snd (updateVehicle ident now pv s)) =
             Some (mergeVehicleKeepingLists existing pv now)"
    if "getVehicle ident s = Some existing"
    using updateVehicle_present [OF that, of now pv]
    by (simp add: getVehicle_def update_conv')
  have l: "getListing lid (snd (updateListing lid now pl s)) = Some (mergeListing existingL pl now)"
    if "getListing lid s = Some existingL"
    using updateListing_present [OF that, of now pl]
    by (simp add: getListing_def update_conv')
  have vu: "v_updatedAt (mergeVehicleKeepingLists existing pv now) = now"
    by (simp add: mergeVehicleKeepingLists_def mergeVehicle_def)
  have lu: "l_updatedAt (mergeListing existingL pl now) = now"
    by (simp add: mergeListing_def)
  show ?thesis
    using v l vu lu
      updateVehicle_absent [of ident s now pv] updateVehicle_present [of ident s existing now pv]
      updateListing_absent [of lid s now pl] updateListing_present [of lid s existingL now pl]
      keepsAbsent_updated [of existing pv now] keepsAbsent_mergeListing [of existingL pl now]
    by simp
qed

theorem update_merges_over_existing_witness:
  "updateVehicle ''v9'' 2000 priceUpdate exampleStore = (None, exampleStore) \<and>
   updateListing ''l9'' 2000 statusUpdate exampleStore = (None, exampleStore) \<and>
   fst (updateVehicle ''v1'' 2000 priceUpdate exampleStore) =
     Some (exampleVehicle\<lparr> v_price := 17900, v_updatedAt := 2000 \<rparr>) \<and>
   getVehicle ''v1'' (snd (updateVehicle ''v1'' 2000 priceUpdate exampleStore)) =
     Some (exampleVehicle\<lparr> v_price := 17900, v_updatedAt := 2000 \<rparr>) \<and>
   fst (updateListing ''l1'' 2000 statusUpdate exampleStore) =
     Some (exampleListing\<lparr> l_status := ''published'', l_updatedAt := 2000 \<rparr>) \<and>
   getListing ''l1'' (snd (updateListing ''l1'' 2000 statusUpdate exampleStore)) =
     Some (exampleListing\<lparr> l_status := ''published'', l_updatedAt := 2000 \<rparr>)"
proof -
  have gv: "getVehicle ''v9'' exampleStore = None" "getVehicle ''v1'' exampleStore = Some exampleVehicle"
    by (simp_all add: getVehicle_def exampleStore_def)
  have gl: "getListing ''l9'' exampleStore = None" "getListing ''l1'' exampleStore = Some exampleListing"
    by (simp_all add: getListing_def exampleStore_def)
  have mv: "mergeVehicleKeepingLists exampleVehicle priceUpdate 2000 =
              exampleVehicle\<lparr> v_price := 17900, v_updatedAt := 2000 \<rparr>"
    by (simp add: mergeVehicleKeepingLists_def mergeVehicle_def priceUpdate_def emptyPartial_def
        exampleVehicle_def)
  have ml: "mergeListing exampleListing statusUpdate 2000 =
              exampleListing\<lparr> l_status := ''published'', l_updatedAt := 2000 \<rparr>"
    by (simp add: mergeListing_def statusUpdate_def exampleListing_def)
  show ?thesis
    using update_merges_over_existing
        [of "''v9''" exampleStore 2000 priceUpdate exampleVehicle "''l9''" statusUpdate exampleListing]
      update_merges_over_existing
        [of "''v1''" exampleStore 2000 priceUpdate exampleVehicle "''l1''" statusUpdate exampleListing]
    by (simp add: gv gl gv [unfolded getVehicle_def] gl [unfolded getListing_def] mv ml
        getVehicle_def getListing_def update_conv')
qed

end
